theory Spec2Isabelle
  imports Main
begin

section \<open>Data model (types.ts)\<close>

text \<open>
  Instants are the integers returned by \<^verbatim>\<open>Date.getTime()\<close>: milliseconds since the epoch.
  A column written with \<^verbatim>\<open>new Date().toISOString()\<close> and read back with
  \<^verbatim>\<open>new Date(s).getTime()\<close> gives the same integer, so a timestamp column is an
  \<open>int option\<close> (\<open>None\<close> is SQL null).
\<close>

datatype session_status = Waiting | Started | Paused | Finished

record TestSession =
  ts_id :: string
  test_id :: "string option"
  status :: session_status
  duration_minutes :: int
  start_time :: "int option"
  test_title :: "string option"
  last_paused_at :: "int option"
  total_paused_duration_seconds :: int

text \<open>Of a \<^verbatim>\<open>Test\<close> only the id and the title are read by the session control code.\<close>

record Test =
  tid :: string
  title :: string

record QuestionOption =
  option_text :: string
  isCorrect :: bool

record Question =
  qid :: string
  q_test_id :: string
  question_text :: string
  options :: "QuestionOption list"

record StudentAnswer =
  session_id :: string
  student_id :: string
  question_id :: string
  selected_option_index :: nat

record StudentSubmission =
  sub_session_id :: string
  sub_student_id :: string

section \<open>JavaScript helpers\<close>

text \<open>\<^verbatim>\<open>Math.floor(d / 1000)\<close> and \<^verbatim>\<open>Math.round(d / 1000)\<close> for an integer number of
  milliseconds \<open>d\<close>. \<^verbatim>\<open>Math.round\<close> rounds a half towards plus infinity.\<close>

definition floor_seconds :: "int \<Rightarrow> int" where
  "floor_seconds d = d div 1000"

definition round_seconds :: "int \<Rightarrow> int" where
  "round_seconds d = (d + 500) div 1000"

text \<open>\<^verbatim>\<open>n || 0\<close> on a number: the falsy number \<open>0\<close> is replaced by \<open>0\<close>.\<close>

definition or_zero :: "int \<Rightarrow> int" where
  "or_zero n = (if n = 0 then 0 else n)"

text \<open>Truthiness of a \<^verbatim>\<open>string | null\<close>: null and the empty string are falsy.\<close>

definition truthy :: "string option \<Rightarrow> bool" where
  "truthy s = (case s of None \<Rightarrow> False | Some v \<Rightarrow> v \<noteq> [])"

section \<open>Countdown (Timer in StudentDashboard.tsx, TestControlPanel in AdminDashboard.tsx)\<close>

text \<open>\<^verbatim>\<open>calculateTimeLeft\<close> of the student's \<^verbatim>\<open>Timer\<close>, with the clock read \<open>now\<close> and the
  non-null \<^verbatim>\<open>session.start_time\<close> as arguments.\<close>

definition netElapsedSeconds :: "TestSession \<Rightarrow> int \<Rightarrow> int \<Rightarrow> int" where
  "netElapsedSeconds session start now =
     floor_seconds (now - start) - or_zero (total_paused_duration_seconds session)"

definition calculateTimeLeft :: "TestSession \<Rightarrow> int \<Rightarrow> int \<Rightarrow> int" where
  "calculateTimeLeft session start now =
     max 0 (duration_minutes session * 60 - netElapsedSeconds session start now)"

text \<open>The value the \<^verbatim>\<open>Timer\<close> effect passes to \<^verbatim>\<open>setTimeLeft\<close> when it is evaluated at
  instant \<open>now\<close>: the three branches of the effect, in the source's order.\<close>

definition Timer_timeLeft :: "TestSession \<Rightarrow> int \<Rightarrow> int" where
  "Timer_timeLeft session now =
     (if status session = Started \<and> start_time session \<noteq> None then
        calculateTimeLeft session (the (start_time session)) now
      else if status session \<noteq> Started \<and> start_time session \<noteq> None then
        (let start = the (start_time session);
             end_time = (case last_paused_at session of Some p \<Rightarrow> p | None \<Rightarrow> now);
             grossElapsedSeconds = floor_seconds (end_time - start);
             netElapsed = grossElapsedSeconds - or_zero (total_paused_duration_seconds session);
             totalSeconds = duration_minutes session * 60
         in max 0 (totalSeconds - netElapsed))
      else duration_minutes session * 60)"

text \<open>The same effect in the administrator's \<^verbatim>\<open>TestControlPanel\<close>, where the session prop
  may be null and the last branch tests \<^verbatim>\<open>session?.duration_minutes\<close> for truthiness.\<close>

definition Panel_calculateTimeLeft :: "TestSession \<Rightarrow> int \<Rightarrow> int \<Rightarrow> int" where
  "Panel_calculateTimeLeft session start now =
     (let grossElapsedSeconds = floor_seconds (now - start);
          netElapsed = grossElapsedSeconds - or_zero (total_paused_duration_seconds session);
          totalSeconds = duration_minutes session * 60
      in max 0 (totalSeconds - netElapsed))"

definition Panel_timeLeft :: "TestSession option \<Rightarrow> int \<Rightarrow> int" where
  "Panel_timeLeft session now =
     (case session of
        None \<Rightarrow> 0
      | Some s \<Rightarrow>
          if status s = Started \<and> start_time s \<noteq> None then
            Panel_calculateTimeLeft s (the (start_time s)) now
          else if status s \<noteq> Started \<and> start_time s \<noteq> None then
            (let start = the (start_time s);
                 end_time = (case last_paused_at s of Some p \<Rightarrow> p | None \<Rightarrow> now);
                 grossElapsedSeconds = floor_seconds (end_time - start);
                 netElapsed = grossElapsedSeconds - or_zero (total_paused_duration_seconds s);
                 totalSeconds = duration_minutes s * 60
             in max 0 (totalSeconds - netElapsed))
          else (if duration_minutes s \<noteq> 0 then duration_minutes s * 60 else 0))"

section \<open>The backend tables\<close>

text \<open>
  The three tables the session code reads and writes. \<open>test_sessions\<close> holds at most the
  row whose id is \<^verbatim>\<open>'active_session'\<close>; every query of the source filters on that id.
\<close>

record Database =
  test_sessions :: "TestSession option"
  student_answers :: "StudentAnswer list"
  student_submissions :: "StudentSubmission list"

text \<open>\<^verbatim>\<open>Partial<TestSession>\<close>: a column that is \<open>None\<close> here is absent from the payload
  and keeps its value; a nullable column written with null is \<open>Some None\<close>. A property
  whose value is \<^verbatim>\<open>undefined\<close> (the title of a test that is not in the list) is dropped
  when the payload is serialised, so it is absent as well.\<close>

record SessionUpdates =
  u_status :: "session_status option"
  u_test_id :: "string option option"
  u_duration_minutes :: "int option"
  u_start_time :: "int option option"
  u_test_title :: "string option"
  u_last_paused_at :: "int option option"
  u_total_paused_duration_seconds :: "int option"

definition only_status :: "session_status \<Rightarrow> SessionUpdates" where
  "only_status st =
     \<lparr>u_status = Some st, u_test_id = None, u_duration_minutes = None, u_start_time = None,
      u_test_title = None, u_last_paused_at = None, u_total_paused_duration_seconds = None\<rparr>"

definition apply_updates :: "SessionUpdates \<Rightarrow> TestSession \<Rightarrow> TestSession" where
  "apply_updates u row =
     row\<lparr>status := (case u_status u of None \<Rightarrow> status row | Some v \<Rightarrow> v),
         test_id := (case u_test_id u of None \<Rightarrow> test_id row | Some v \<Rightarrow> v),
         duration_minutes := (case u_duration_minutes u of None \<Rightarrow> duration_minutes row | Some v \<Rightarrow> v),
         start_time := (case u_start_time u of None \<Rightarrow> start_time row | Some v \<Rightarrow> v),
         test_title := (case u_test_title u of None \<Rightarrow> test_title row | Some v \<Rightarrow> Some v),
         last_paused_at := (case u_last_paused_at u of None \<Rightarrow> last_paused_at row | Some v \<Rightarrow> v),
         total_paused_duration_seconds :=
           (case u_total_paused_duration_seconds u of
              None \<Rightarrow> total_paused_duration_seconds row | Some v \<Rightarrow> v)\<rparr>"

text \<open>\<^verbatim>\<open>from('test_sessions').update(updates).eq('id', 'active_session')\<close>: the only
  predicate of the write is the row id.\<close>

definition update_test_session :: "SessionUpdates \<Rightarrow> Database \<Rightarrow> Database" where
  "update_test_session u db = db\<lparr>test_sessions := map_option (apply_updates u) (test_sessions db)\<rparr>"

text \<open>Modelled from the spec: the stored routine \<^verbatim>\<open>reset_test_session\<close>, whose SQL
  (\<^verbatim>\<open>supabase.md\<close>) is not among the sources. Section 4.2: it clears
  \<open>activeTestId\<close>, the timestamps, the accumulator and the title, sets the status to
  \<open>waiting\<close>, and deletes all Answer and Submission rows, as one routine.\<close>

definition reset_test_session :: "Database \<Rightarrow> Database" where
  "reset_test_session db =
     \<lparr>test_sessions =
        map_option (\<lambda>row. row\<lparr>status := Waiting, test_id := None, start_time := None,
                               test_title := None, last_paused_at := None,
                               total_paused_duration_seconds := 0\<rparr>) (test_sessions db),
      student_answers = [],
      student_submissions = []\<rparr>"

section \<open>Session control (handleControlAction in AdminDashboard.tsx)\<close>

text \<open>The props and state of \<^verbatim>\<open>TestControlPanel\<close> that \<^verbatim>\<open>handleControlAction\<close> reads.\<close>

record ControlPanel =
  cp_session :: "TestSession option"
  selectedTestId :: "string option"
  duration :: int
  tests :: "Test list"

datatype control_error =
    NoTestSelected
  | ResetFailed string
  | UpdateFailed string

text \<open>\<^verbatim>\<open>selectedTestId || session?.test_id\<close>.\<close>

definition testIdToStart :: "ControlPanel \<Rightarrow> string option" where
  "testIdToStart cp =
     (if truthy (selectedTestId cp) then selectedTestId cp
      else (case cp_session cp of None \<Rightarrow> None | Some s \<Rightarrow> test_id s))"

text \<open>The construction of \<^verbatim>\<open>updates\<close> for a new status other than \<open>waiting\<close>;
  \<open>Inl NoTestSelected\<close> is the early return after the alert
  \<^verbatim>\<open>'Please select a test to start.'\<close>.\<close>

definition control_updates ::
  "ControlPanel \<Rightarrow> int \<Rightarrow> session_status \<Rightarrow> control_error + SessionUpdates" where
  "control_updates cp now newStatus =
     (let updates = only_status newStatus;
          previousStatus = map_option status (cp_session cp)
      in if newStatus = Started then
           (if previousStatus = Some Paused then
              (case cp_session cp of
                 None \<Rightarrow> Inr updates
               | Some s \<Rightarrow>
                   (case last_paused_at s of
                      None \<Rightarrow> Inr updates
                    | Some pausedAt \<Rightarrow>
                        (let currentPauseDuration = round_seconds (now - pausedAt)
                         in Inr (updates\<lparr>u_total_paused_duration_seconds :=
                                           Some (or_zero (total_paused_duration_seconds s)
                                                 + currentPauseDuration),
                                         u_last_paused_at := Some None\<rparr>))))
            else
              (if \<not> truthy (testIdToStart cp) then Inl NoTestSelected
               else
                 (let testTitle =
                        map_option title (find (\<lambda>t. Some (tid t) = testIdToStart cp) (tests cp))
                  in Inr (updates\<lparr>u_start_time := Some (Some now),
                                  u_test_id := (if truthy (selectedTestId cp)
                                                then Some (selectedTestId cp) else None),
                                  u_duration_minutes := Some (duration cp),
                                  u_test_title := testTitle,
                                  u_total_paused_duration_seconds := Some 0,
                                  u_last_paused_at := Some None\<rparr>))))
         else if newStatus = Paused then
           Inr (updates\<lparr>u_last_paused_at := Some (Some now)\<rparr>)
         else Inr updates)"

text \<open>The audit action logged after a successful update.\<close>

definition auditAction :: "session_status option \<Rightarrow> session_status \<Rightarrow> string" where
  "auditAction previousStatus newStatus =
     (if newStatus = Started then
        (if previousStatus = Some Paused then ''test_resumed'' else ''test_started'')
      else if newStatus = Paused then ''test_paused''
      else if newStatus = Finished then ''test_finished''
      else [])"

text \<open>
  \<^verbatim>\<open>handleControlAction(newStatus)\<close> at clock reading \<open>now\<close>. \<open>db_error\<close> is the
  error, if any, with which the backend call of this invocation fails (the database is then
  left as it was). The result is the error surfaced by an alert, or the audit action logged,
  together with the database after the call.
\<close>

definition handleControlAction ::
  "ControlPanel \<Rightarrow> int \<Rightarrow> session_status \<Rightarrow> string option \<Rightarrow> Database
     \<Rightarrow> (control_error + string) \<times> Database" where
  "handleControlAction cp now newStatus db_error db =
     (if newStatus = Waiting then
        (case db_error of
           Some msg \<Rightarrow> (Inl (ResetFailed msg), db)
         | None \<Rightarrow> (Inr ''test_reset'', reset_test_session db))
      else
        (case control_updates cp now newStatus of
           Inl e \<Rightarrow> (Inl e, db)
         | Inr updates \<Rightarrow>
             (case db_error of
                Some msg \<Rightarrow> (Inl (UpdateFailed msg), db)
              | None \<Rightarrow>
                  (Inr (auditAction (map_option status (cp_session cp)) newStatus),
                   update_test_session updates db))))"

text \<open>A button is enabled when its \<^verbatim>\<open>disabled\<close> attribute is false: Start/Resume
  unless the session is started, Pause only while it is started, Finish unless it is finished
  or waiting; the Reset button is never disabled.\<close>

definition button_enabled :: "TestSession option \<Rightarrow> session_status \<Rightarrow> bool" where
  "button_enabled session newStatus =
     (let st = map_option status session
      in case newStatus of
           Started \<Rightarrow> st \<noteq> Some Started
         | Paused \<Rightarrow> st = Some Started
         | Finished \<Rightarrow> \<not> (st = Some Finished \<or> st = Some Waiting)
         | Waiting \<Rightarrow> True)"

text \<open>The session a student client assumes when no row is stored: waiting, no test, no
  timestamps, nothing accumulated.\<close>

definition default_session :: TestSession where
  "default_session =
     \<lparr>ts_id = ''active_session'', test_id = None, status = Waiting, duration_minutes = 60,
      start_time = None, test_title = Some [], last_paused_at = None,
      total_paused_duration_seconds = 0\<rparr>"

definition initial_db :: Database where
  "initial_db = \<lparr>test_sessions = Some default_session, student_answers = [],
                  student_submissions = []\<rparr>"

text \<open>One click on the control panel whose session prop is the stored row (the realtime
  subscription has delivered every earlier change) and whose backend call succeeds.\<close>

definition synced_action ::
  "string option \<Rightarrow> int \<Rightarrow> Test list \<Rightarrow> Database \<Rightarrow> session_status \<times> int \<Rightarrow> Database" where
  "synced_action sel dur ts db ev =
     snd (handleControlAction
            \<lparr>cp_session = test_sessions db, selectedTestId = sel, duration = dur, tests = ts\<rparr>
            (snd ev) (fst ev) None db)"

definition run_actions ::
  "string option \<Rightarrow> int \<Rightarrow> Test list \<Rightarrow> Database \<Rightarrow> (session_status \<times> int) list \<Rightarrow> Database" where
  "run_actions sel dur ts db evs = foldl (synced_action sel dur ts) db evs"

text \<open>A run of Pause/Resume pairs: the instants of each pause and of the resume that
  follows it.\<close>

definition pause_resume_events :: "(int \<times> int) list \<Rightarrow> (session_status \<times> int) list" where
  "pause_resume_events pairs = concat (map (\<lambda>pr. [(Paused, fst pr), (Started, snd pr)]) pairs)"

text \<open>The session rows that clicks on enabled buttons of a panel showing the stored row
  can produce from the default session, whatever test, duration and catalogue are selected
  and whether or not the backend call fails.\<close>

inductive reachable_session :: "TestSession \<Rightarrow> bool" where
  reach_default: "reachable_session default_session"
| reach_click:
    "reachable_session row \<Longrightarrow>
     button_enabled (Some row) newStatus \<Longrightarrow>
     handleControlAction
        \<lparr>cp_session = Some row, selectedTestId = sel, duration = dur, tests = ts\<rparr>
        now newStatus db_error
        \<lparr>test_sessions = Some row, student_answers = as, student_submissions = ss\<rparr> = (res, db') \<Longrightarrow>
     test_sessions db' = Some row' \<Longrightarrow>
     reachable_session row'"

code_pred reachable_session .

text \<open>The transitions section 4.2 of the specification calls legal, by source status and
  requested status (Start and Resume both request \<open>started\<close>; Reset requests \<open>waiting\<close>).\<close>

definition spec_legal_transition :: "session_status \<Rightarrow> session_status \<Rightarrow> bool" where
  "spec_legal_transition src newStatus =
     (case newStatus of
        Started \<Rightarrow> src = Waiting \<or> src = Finished \<or> src = Paused
      | Paused \<Rightarrow> src = Started
      | Finished \<Rightarrow> src = Started \<or> src = Paused
      | Waiting \<Rightarrow> True)"

section \<open>The student client (StudentDashboard.tsx)\<close>

record StudentClient =
  st_session :: "TestSession option"
  questions :: "Question list"
  answers :: "(string \<times> nat) list"
  currentQuestionIndex :: nat
  isSubmitted :: bool
  isSubmitting :: bool
  hasLoggedTestStart :: bool

text \<open>\<^verbatim>\<open>Map.prototype.set\<close> on the entries of a \<^verbatim>\<open>Map\<close> in insertion order: an existing
  key keeps its place, a new key goes to the end.\<close>

primrec Map_set :: "'k \<Rightarrow> 'v \<Rightarrow> ('k \<times> 'v) list \<Rightarrow> ('k \<times> 'v) list" where
  "Map_set k v [] = [(k, v)]"
| "Map_set k v (p # ps) = (if fst p = k then (k, v) # ps else p # Map_set k v ps)"

definition answer_key :: "StudentAnswer \<Rightarrow> string \<times> string \<times> string" where
  "answer_key a = (session_id a, student_id a, question_id a)"

text \<open>Modelled from the spec: the unique key of \<open>student_answers\<close>, whose table
  declaration (\<^verbatim>\<open>supabase.md\<close>) is not among the sources. Section 3: an Answer is
  composite-keyed by (sessionGeneration, studentId, questionId), unique per key. The
  statement is \<^verbatim>\<open>upsert(row, { onConflict: 'session_id,student_id,question_id' })\<close>: the
  row with the payload's key takes the payload's columns; without such a row the payload is
  inserted.\<close>

primrec upsert_answer :: "StudentAnswer \<Rightarrow> StudentAnswer list \<Rightarrow> StudentAnswer list" where
  "upsert_answer a [] = [a]"
| "upsert_answer a (r # rs) =
     (if answer_key r = answer_key a then a # rs else r # upsert_answer a rs)"

definition submission_key :: "StudentSubmission \<Rightarrow> string \<times> string" where
  "submission_key r = (sub_session_id r, sub_student_id r)"

text \<open>Modelled from the spec: the unique key of \<open>student_submissions\<close>, whose table
  declaration is not among the sources. Section 3: a Submission is composite-keyed by
  (sessionGeneration, studentId) and an insertion is rejected if the key already exists.
  The statement is a plain \<^verbatim>\<open>insert(row)\<close>.\<close>

definition duplicate_key_message :: string where
  "duplicate_key_message = ''duplicate key value violates unique constraint''"

definition insert_submission ::
  "StudentSubmission \<Rightarrow> StudentSubmission list \<Rightarrow> string + StudentSubmission list" where
  "insert_submission r rows =
     (if submission_key r \<in> set (map submission_key rows)
      then Inl duplicate_key_message
      else Inr (rows @ [r]))"

text \<open>
  \<^verbatim>\<open>handleSelectOption(questionId, optionIndex)\<close> for the signed-in user. \<open>db_error\<close>
  is the error, if any, with which the upsert fails. The result is the client state, the
  database, and the message written to the console.
\<close>

definition handleSelectOption ::
  "StudentClient \<Rightarrow> string \<Rightarrow> string \<Rightarrow> nat \<Rightarrow> string option \<Rightarrow> Database
     \<Rightarrow> StudentClient \<times> Database \<times> string option" where
  "handleSelectOption c user_id questionId optionIndex db_error db =
     (let newAnswers = Map_set questionId optionIndex (answers c);
          c' = c\<lparr>answers := newAnswers\<rparr>
      in case db_error of
           Some msg \<Rightarrow> (c', db, Some msg)
         | None \<Rightarrow>
             (c',
              db\<lparr>student_answers :=
                    upsert_answer
                      \<lparr>session_id = ''active_session'', student_id = user_id,
                       question_id = questionId, selected_option_index = optionIndex\<rparr>
                      (student_answers db)\<rparr>,
              None))"

datatype submit_error = SubmitFailed string

text \<open>
  \<^verbatim>\<open>handleFinalSubmit(isAutoSubmit)\<close>. \<open>db_error\<close> is the error, if any, with which the
  backend fails for a reason other than the key. \<open>Inl (SubmitFailed msg)\<close> is the branch
  that alerts \<^verbatim>\<open>There was an error submitting your test: msg\<close> and returns; \<open>Inr\<close>
  carries the audit action logged on success.
\<close>

definition handleFinalSubmit ::
  "StudentClient \<Rightarrow> string \<Rightarrow> bool \<Rightarrow> string option \<Rightarrow> Database
     \<Rightarrow> (submit_error + string) \<times> StudentClient \<times> Database" where
  "handleFinalSubmit c user_id isAutoSubmit db_error db =
     (let c1 = c\<lparr>isSubmitting := True\<rparr>;
          submissionPayload = \<lparr>sub_session_id = ''active_session'', sub_student_id = user_id\<rparr>;
          inserted = (case db_error of
                        Some msg \<Rightarrow> Inl msg
                      | None \<Rightarrow> insert_submission submissionPayload (student_submissions db))
      in case inserted of
           Inl msg \<Rightarrow> (Inl (SubmitFailed msg), c1\<lparr>isSubmitting := False\<rparr>, db)
         | Inr rows \<Rightarrow>
             (Inr (if isAutoSubmit then ''student_auto_submitted'' else ''student_submitted_test''),
              c1\<lparr>isSubmitted := True\<rparr>,
              db\<lparr>student_submissions := rows\<rparr>))"

text \<open>The handler of the student's subscription to changes of the session row.\<close>

definition on_session_change :: "StudentClient \<Rightarrow> TestSession \<Rightarrow> StudentClient" where
  "on_session_change c newSession =
     (let c1 = (if status newSession = Waiting \<and> map_option status (st_session c) \<noteq> Some Waiting
                then c\<lparr>isSubmitted := False, isSubmitting := False, questions := [],
                       answers := [], currentQuestionIndex := 0, hasLoggedTestStart := False\<rparr>
                else c)
      in c1\<lparr>st_session := Some newSession\<rparr>)"

text \<open>The two counters of \<^verbatim>\<open>ReportSummary\<close> that depend on the answers:
  \<^verbatim>\<open>answers.size\<close> and the number of entries whose option is flagged correct; an index
  outside the options is \<^verbatim>\<open>undefined\<close> and does not count.\<close>

definition answeredQuestions :: "(string \<times> nat) list \<Rightarrow> nat" where
  "answeredQuestions ans = length ans"

definition answer_is_correct :: "Question list \<Rightarrow> string \<times> nat \<Rightarrow> bool" where
  "answer_is_correct qs e =
     (case find (\<lambda>q. qid q = fst e) qs of
        None \<Rightarrow> False
      | Some question \<Rightarrow> snd e < length (options question) \<and> isCorrect (options question ! snd e))"

definition correctAnswers :: "Question list \<Rightarrow> (string \<times> nat) list \<Rightarrow> nat" where
  "correctAnswers qs ans = length (filter (answer_is_correct qs) ans)"

section \<open>Example runs\<close>

definition quiz_catalogue :: "Test list" where
  "quiz_catalogue = [\<lparr>tid = ''t1'', title = ''Quiz''\<rparr>]"

text \<open>The session after a one-minute test is started at instant 0.\<close>

definition running_example :: TestSession where
  "running_example =
     \<lparr>ts_id = ''active_session'', test_id = Some ''t1'', status = Started, duration_minutes = 1,
      start_time = Some 0, test_title = Some ''Quiz'', last_paused_at = None,
      total_paused_duration_seconds = 0\<rparr>"

text \<open>The same session paused at 10 s, and finished either while running or while paused.\<close>

definition paused_example :: TestSession where
  "paused_example = running_example\<lparr>status := Paused, last_paused_at := Some 10000\<rparr>"

definition finished_running_example :: TestSession where
  "finished_running_example = running_example\<lparr>status := Finished\<rparr>"

definition finished_paused_example :: TestSession where
  "finished_paused_example = paused_example\<lparr>status := Finished\<rparr>"

text \<open>The time a run spends started, in milliseconds, as the specification's testable
  property words it: the sum of the started intervals, from the start or a resume to the
  next pause, the last one ending at the query instant.\<close>

fun running_ms :: "int \<Rightarrow> (int \<times> int) list \<Rightarrow> int \<Rightarrow> int" where
  "running_ms t [] now = now - t"
| "running_ms t (pr # prs) now = (fst pr - t) + running_ms (snd pr) prs now"

text \<open>Five pauses of 499 ms, one a second.\<close>

definition short_pauses :: "(int \<times> int) list" where
  "short_pauses = [(1000, 1499), (2000, 2499), (3000, 3499), (4000, 4499), (5000, 5499)]"

text \<open>A student client that has loaded nothing yet, and a database that holds one answer
  and the submission of student \<open>u1\<close> while the one-minute test is paused.\<close>

definition fresh_client :: StudentClient where
  "fresh_client =
     \<lparr>st_session = Some running_example, questions = [], answers = [],
      currentQuestionIndex = 0, isSubmitted = False, isSubmitting = False,
      hasLoggedTestStart = False\<rparr>"

definition busy_db :: Database where
  "busy_db =
     \<lparr>test_sessions = Some paused_example,
      student_answers = [\<lparr>session_id = ''active_session'', student_id = ''u1'',
                          question_id = ''q1'', selected_option_index = 2\<rparr>],
      student_submissions = [\<lparr>sub_session_id = ''active_session'', sub_student_id = ''u1''\<rparr>]\<rparr>"

section \<open>Basic facts about the session control\<close>

lemma or_zero_id [simp]: "or_zero n = n"
  by (simp add: or_zero_def)

lemma synced_pause:
  assumes "test_sessions db = Some row"
  shows "synced_action sel dur ts db (Paused, now) =
           db\<lparr>test_sessions := Some (row\<lparr>status := Paused, last_paused_at := Some now\<rparr>)\<rparr>"
  using assms
  by (simp add: synced_action_def handleControlAction_def control_updates_def only_status_def
      update_test_session_def apply_updates_def)

lemma synced_finish:
  assumes "test_sessions db = Some row"
  shows "synced_action sel dur ts db (Finished, now) =
           db\<lparr>test_sessions := Some (row\<lparr>status := Finished\<rparr>)\<rparr>"
  using assms
  by (simp add: synced_action_def handleControlAction_def control_updates_def only_status_def
      update_test_session_def apply_updates_def)

lemma synced_resume:
  assumes "test_sessions db = Some row" and "status row = Paused" and "last_paused_at row = Some p"
  shows "synced_action sel dur ts db (Started, now) =
           db\<lparr>test_sessions := Some (row\<lparr>status := Started, last_paused_at := None,
                  total_paused_duration_seconds :=
                    total_paused_duration_seconds row + round_seconds (now - p)\<rparr>)\<rparr>"
  using assms
  by (simp add: synced_action_def handleControlAction_def control_updates_def only_status_def
      update_test_session_def apply_updates_def)

lemma synced_start:
  assumes "test_sessions db = Some row" and "status row \<noteq> Paused" and "truthy sel"
  shows "synced_action sel dur ts db (Started, now) =
           db\<lparr>test_sessions := Some (row\<lparr>status := Started, test_id := sel,
                  duration_minutes := dur, start_time := Some now,
                  test_title := (case find (\<lambda>t. Some (tid t) = sel) ts of
                                   None \<Rightarrow> test_title row | Some t \<Rightarrow> Some (title t)),
                  last_paused_at := None, total_paused_duration_seconds := 0\<rparr>)\<rparr>"
  using assms
  by (simp add: synced_action_def handleControlAction_def control_updates_def only_status_def
      update_test_session_def apply_updates_def testIdToStart_def split: option.splits)

section \<open>The countdown of a started session\<close>

lemma Timer_timeLeft_started:
  assumes "status s = Started" and "start_time s = Some st"
  shows "Timer_timeLeft s now =
           max 0 (duration_minutes s * 60 - ((now - st) div 1000 - total_paused_duration_seconds s))"
  using assms
  by (simp add: Timer_timeLeft_def calculateTimeLeft_def netElapsedSeconds_def floor_seconds_def)

lemma Panel_timeLeft_started:
  assumes "status s = Started" and "start_time s = Some st"
  shows "Panel_timeLeft (Some s) now =
           max 0 (duration_minutes s * 60 - ((now - st) div 1000 - total_paused_duration_seconds s))"
  using assms
  by (simp add: Panel_timeLeft_def Panel_calculateTimeLeft_def floor_seconds_def)

lemma scenario_row:
  assumes "truthy sel"
  shows "test_sessions (run_actions sel 1 ts initial_db
            [(Started, T0), (Paused, T0 + 10000), (Started, T0 + 40000)]) =
         Some (default_session\<lparr>status := Started, test_id := sel, duration_minutes := 1,
                 start_time := Some T0,
                 test_title := (case find (\<lambda>t. Some (tid t) = sel) ts of
                                  None \<Rightarrow> Some [] | Some t \<Rightarrow> Some (title t)),
                 last_paused_at := None, total_paused_duration_seconds := 30\<rparr>)"
  using assms
  by (simp add: run_actions_def initial_db_def default_session_def synced_start synced_pause
      synced_resume round_seconds_def split: option.splits)

text \<open>
  Claim C1. For a session snapshot that is started and has a start time, the student's
  timer and the administrator's panel both show
  \<open>max 0 (durationSeconds - (floor ((now - startTime) / 1000) - pausedAccumulatedSeconds))\<close>
  with \<open>durationSeconds = duration_minutes * 60\<close>. In the run with a one-minute test
  started at \<open>T0\<close>, paused at \<open>T0 + 10 s\<close> and resumed at \<open>T0 + 40 s\<close>, the net
  elapsed time at \<open>T0 + 50 s\<close> is 20 seconds and the remaining time is 40 seconds.
\<close>

theorem remaining_time_of_started_session:
  "(status s = Started \<and> start_time s = Some st \<longrightarrow>
      Timer_timeLeft s now =
        max 0 (duration_minutes s * 60 - ((now - st) div 1000 - total_paused_duration_seconds s))
      \<and> Panel_timeLeft (Some s) now =
        max 0 (duration_minutes s * 60 - ((now - st) div 1000 - total_paused_duration_seconds s)))
   \<and> (truthy sel \<longrightarrow>
        (\<exists>r. test_sessions (run_actions sel 1 ts initial_db
                 [(Started, T0), (Paused, T0 + 10000), (Started, T0 + 40000)]) = Some r
           \<and> status r = Started \<and> start_time r = Some T0 \<and> duration_minutes r * 60 = 60
           \<and> netElapsedSeconds r T0 (T0 + 50000) = 20
           \<and> Timer_timeLeft r (T0 + 50000) = 40
           \<and> Panel_timeLeft (Some r) (T0 + 50000) = 40))"
proof (intro conjI impI)
  assume "status s = Started \<and> start_time s = Some st"
  then show "Timer_timeLeft s now =
        max 0 (duration_minutes s * 60 - ((now - st) div 1000 - total_paused_duration_seconds s))"
    by (simp add: Timer_timeLeft_started)
next
  assume "status s = Started \<and> start_time s = Some st"
  then show "Panel_timeLeft (Some s) now =
        max 0 (duration_minutes s * 60 - ((now - st) div 1000 - total_paused_duration_seconds s))"
    by (simp add: Panel_timeLeft_started)
next
  assume sel: "truthy sel"
  show "\<exists>r. test_sessions (run_actions sel 1 ts initial_db
                 [(Started, T0), (Paused, T0 + 10000), (Started, T0 + 40000)]) = Some r
           \<and> status r = Started \<and> start_time r = Some T0 \<and> duration_minutes r * 60 = 60
           \<and> netElapsedSeconds r T0 (T0 + 50000) = 20
           \<and> Timer_timeLeft r (T0 + 50000) = 40
           \<and> Panel_timeLeft (Some r) (T0 + 50000) = 40"
    unfolding scenario_row [OF sel]
    by (simp add: default_session_def netElapsedSeconds_def floor_seconds_def
        Timer_timeLeft_def calculateTimeLeft_def Panel_timeLeft_def Panel_calculateTimeLeft_def)
qed

theorem remaining_time_of_started_session_witness:
  "Timer_timeLeft
     \<lparr>ts_id = ''active_session'', test_id = Some ''t1'', status = Started, duration_minutes = 1,
      start_time = Some 0, test_title = Some ''Quiz'', last_paused_at = None,
      total_paused_duration_seconds = 30\<rparr> 50000 = 40
   \<and> truthy (Some ''t1'')
   \<and> (\<exists>r. test_sessions (run_actions (Some ''t1'') 1 [\<lparr>tid = ''t1'', title = ''Quiz''\<rparr>] initial_db
              [(Started, 0), (Paused, 0 + 10000), (Started, 0 + 40000)]) = Some r
         \<and> Timer_timeLeft r (0 + 50000) = 40)"
  using remaining_time_of_started_session
    [of "\<lparr>ts_id = ''active_session'', test_id = Some ''t1'', status = Started, duration_minutes = 1,
      start_time = Some 0, test_title = Some ''Quiz'', last_paused_at = None,
      total_paused_duration_seconds = 30\<rparr>" 0 50000 "Some ''t1''" "[\<lparr>tid = ''t1'', title = ''Quiz''\<rparr>]" 0]
  by (auto simp add: truthy_def)

section \<open>Reachable sessions\<close>

text \<open>What one call of \<open>handleControlAction\<close> can do to the stored row when the panel shows
  that row.\<close>

lemma click_row_cases:
  assumes "handleControlAction
        \<lparr>cp_session = Some row, selectedTestId = sel, duration = dur, tests = ts\<rparr>
        now newStatus db_error
        \<lparr>test_sessions = Some row, student_answers = as, student_submissions = ss\<rparr> = (res, db')"
    and "test_sessions db' = Some row'"
  shows "row' = row
       \<or> (newStatus = Waiting \<and> status row' = Waiting \<and> last_paused_at row' = None)
       \<or> (newStatus = Paused \<and> row' = row\<lparr>status := Paused, last_paused_at := Some now\<rparr>)
       \<or> (newStatus = Finished \<and> row' = row\<lparr>status := Finished\<rparr>)
       \<or> (newStatus = Started \<and> status row = Paused \<and> last_paused_at row = None
            \<and> row' = row\<lparr>status := Started\<rparr>)
       \<or> (newStatus = Started \<and> status row' = Started \<and> last_paused_at row' = None)"
  using assms
  by (cases newStatus; cases db_error; cases "last_paused_at row")
     (auto simp add: handleControlAction_def control_updates_def only_status_def
        update_test_session_def apply_updates_def reset_test_session_def Let_def
        split: if_splits option.splits)

lemma reachable_last_paused_at:
  assumes "reachable_session row"
  shows "(status row = Paused \<longrightarrow> last_paused_at row \<noteq> None) \<and>
         (last_paused_at row \<noteq> None \<longrightarrow> status row = Paused \<or> status row = Finished)"
  using assms
proof (induction rule: reachable_session.induct)
  case reach_default
  show ?case by (simp add: default_session_def)
next
  case (reach_click row newStatus sel dur ts now db_error as ss res db' row')
  from click_row_cases [OF reach_click.hyps(3,4)] reach_click.IH
  show ?case by auto
qed

text \<open>A click on an enabled button of a synchronised panel leads from a reachable row to
  a reachable row.\<close>

lemma reachable_synced_action:
  assumes "reachable_session row" and "button_enabled (Some row) newStatus"
    and "test_sessions (synced_action sel dur ts
            \<lparr>test_sessions = Some row, student_answers = as, student_submissions = ss\<rparr>
            (newStatus, now)) = Some row'"
  shows "reachable_session row'"
proof -
  let ?db = "\<lparr>test_sessions = Some row, student_answers = as, student_submissions = ss\<rparr>"
  let ?r = "handleControlAction
        \<lparr>cp_session = Some row, selectedTestId = sel, duration = dur, tests = ts\<rparr>
        now newStatus None ?db"
  have "?r = (fst ?r, snd ?r)" by simp
  moreover have "test_sessions (snd ?r) = Some row'"
    using assms(3) by (simp add: synced_action_def)
  ultimately show ?thesis
    using reach_click [OF assms(1,2)] by blast
qed

lemma reachable_running_example: "reachable_session running_example"
proof (rule reachable_synced_action [OF reach_default, of Started "Some ''t1''" 1 quiz_catalogue "[]" "[]" 0])
  show "button_enabled (Some default_session) Started"
    by (simp add: button_enabled_def default_session_def)
  show "test_sessions (synced_action (Some ''t1'') 1 quiz_catalogue
          \<lparr>test_sessions = Some default_session, student_answers = [], student_submissions = []\<rparr>
          (Started, 0)) = Some running_example"
    by (simp add: synced_start default_session_def truthy_def quiz_catalogue_def
        running_example_def)
qed

lemma reachable_paused_example: "reachable_session paused_example"
proof (rule reachable_synced_action [OF reachable_running_example, of Paused None 1 "[]" "[]" "[]" 10000])
  show "button_enabled (Some running_example) Paused"
    by (simp add: button_enabled_def running_example_def)
  show "test_sessions (synced_action None 1 []
          \<lparr>test_sessions = Some running_example, student_answers = [], student_submissions = []\<rparr>
          (Paused, 10000)) = Some paused_example"
    by (simp add: synced_pause paused_example_def)
qed

lemma reachable_finished_running_example: "reachable_session finished_running_example"
proof (rule reachable_synced_action [OF reachable_running_example, of Finished None 1 "[]" "[]" "[]" 5000])
  show "button_enabled (Some running_example) Finished"
    by (simp add: button_enabled_def running_example_def)
  show "test_sessions (synced_action None 1 []
          \<lparr>test_sessions = Some running_example, student_answers = [], student_submissions = []\<rparr>
          (Finished, 5000)) = Some finished_running_example"
    by (simp add: synced_finish finished_running_example_def)
qed

lemma reachable_finished_paused_example: "reachable_session finished_paused_example"
proof (rule reachable_synced_action [OF reachable_paused_example, of Finished None 1 "[]" "[]" "[]" 20000])
  show "button_enabled (Some paused_example) Finished"
    by (simp add: button_enabled_def paused_example_def running_example_def)
  show "test_sessions (synced_action None 1 []
          \<lparr>test_sessions = Some paused_example, student_answers = [], student_submissions = []\<rparr>
          (Finished, 20000)) = Some finished_paused_example"
    by (simp add: synced_finish finished_paused_example_def)
qed

section \<open>Monotonicity of the countdown\<close>

lemma countdown_antimono:
  fixes a b total paused :: int
  assumes "a \<le> b"
  shows "max 0 (total - (b div 1000 - paused)) \<le> max 0 (total - (a div 1000 - paused))"
proof -
  have "a div 1000 \<le> b div 1000"
    using assms by (rule zdiv_mono1) simp
  then show ?thesis by linarith
qed

lemma Timer_timeLeft_antimono:
  assumes "now1 \<le> now2"
  shows "Timer_timeLeft s now2 \<le> Timer_timeLeft s now1"
proof -
  have le: "now1 - st \<le> now2 - st" for st
    using assms by simp
  show ?thesis
    using countdown_antimono [OF le]
    by (simp add: Timer_timeLeft_def calculateTimeLeft_def netElapsedSeconds_def
        floor_seconds_def Let_def split: option.splits)
qed

lemma Panel_timeLeft_antimono:
  assumes "now1 \<le> now2"
  shows "Panel_timeLeft s now2 \<le> Panel_timeLeft s now1"
proof -
  have le: "now1 - st \<le> now2 - st" for st
    using assms by simp
  show ?thesis
    using countdown_antimono [OF le]
    by (simp add: Panel_timeLeft_def Panel_calculateTimeLeft_def
        floor_seconds_def Let_def split: option.splits)
qed

lemma Timer_timeLeft_frozen:
  assumes "status s \<noteq> Started" and "last_paused_at s \<noteq> None \<or> start_time s = None"
  shows "Timer_timeLeft s now1 = Timer_timeLeft s now2"
  using assms by (auto simp add: Timer_timeLeft_def)

lemma Panel_timeLeft_frozen:
  assumes "status s \<noteq> Started" and "last_paused_at s \<noteq> None \<or> start_time s = None"
  shows "Panel_timeLeft (Some s) now1 = Panel_timeLeft (Some s) now2"
  using assms by (auto simp add: Panel_timeLeft_def)

text \<open>
  Claim C6 says the remaining time is constant while the session is finished. For the session
  finished while it was running (no pause instant is stored) both countdowns use the clock
  reading of the evaluation: 50 seconds at 10 s, 40 seconds at 20 s.
\<close>

theorem finished_while_running_not_constant:
  "test_sessions (run_actions (Some ''t1'') 1 quiz_catalogue initial_db
      [(Started, 0), (Finished, 5000)]) = Some finished_running_example
   \<and> status finished_running_example = Finished
   \<and> Timer_timeLeft finished_running_example 10000 = 50
   \<and> Timer_timeLeft finished_running_example 20000 = 40
   \<and> Panel_timeLeft (Some finished_running_example) 10000 = 50
   \<and> Panel_timeLeft (Some finished_running_example) 20000 = 40"
  by (simp add: run_actions_def initial_db_def synced_start synced_finish truthy_def
      default_session_def quiz_catalogue_def finished_running_example_def running_example_def
      Timer_timeLeft_def Panel_timeLeft_def floor_seconds_def)

text \<open>
  Claim C6, amended. For a fixed session snapshot the remaining time never increases with
  the query instant, in every status. It does not depend on the query instant when the
  session is not started and a pause instant is stored (or no start time is): so it is
  constant for every reachable paused session and for a session finished while paused. For
  a session finished while running it is the value computed from the clock at the
  evaluation.
\<close>

theorem remaining_time_over_time:
  "(now1 \<le> now2 \<longrightarrow>
      Timer_timeLeft s now2 \<le> Timer_timeLeft s now1
      \<and> Panel_timeLeft (Some s) now2 \<le> Panel_timeLeft (Some s) now1)
   \<and> (status s \<noteq> Started \<and> (last_paused_at s \<noteq> None \<or> start_time s = None) \<longrightarrow>
      Timer_timeLeft s now1 = Timer_timeLeft s now2
      \<and> Panel_timeLeft (Some s) now1 = Panel_timeLeft (Some s) now2)
   \<and> (reachable_session s \<and> status s = Paused \<longrightarrow>
      Timer_timeLeft s now1 = Timer_timeLeft s now2
      \<and> Panel_timeLeft (Some s) now1 = Panel_timeLeft (Some s) now2)
   \<and> (status s = Finished \<and> last_paused_at s = None \<and> start_time s = Some st \<longrightarrow>
      Timer_timeLeft s now1 =
        max 0 (duration_minutes s * 60 - ((now1 - st) div 1000 - total_paused_duration_seconds s))
      \<and> Panel_timeLeft (Some s) now1 =
        max 0 (duration_minutes s * 60 - ((now1 - st) div 1000 - total_paused_duration_seconds s)))"
proof (intro conjI impI)
  assume "now1 \<le> now2"
  then show "Timer_timeLeft s now2 \<le> Timer_timeLeft s now1"
    by (rule Timer_timeLeft_antimono)
next
  assume "now1 \<le> now2"
  then show "Panel_timeLeft (Some s) now2 \<le> Panel_timeLeft (Some s) now1"
    by (rule Panel_timeLeft_antimono)
next
  assume "status s \<noteq> Started \<and> (last_paused_at s \<noteq> None \<or> start_time s = None)"
  then show "Timer_timeLeft s now1 = Timer_timeLeft s now2"
    using Timer_timeLeft_frozen by blast
next
  assume "status s \<noteq> Started \<and> (last_paused_at s \<noteq> None \<or> start_time s = None)"
  then show "Panel_timeLeft (Some s) now1 = Panel_timeLeft (Some s) now2"
    using Panel_timeLeft_frozen by blast
next
  assume a: "reachable_session s \<and> status s = Paused"
  then have "last_paused_at s \<noteq> None"
    using reachable_last_paused_at by blast
  with a show "Timer_timeLeft s now1 = Timer_timeLeft s now2"
    using Timer_timeLeft_frozen [of s] by simp
next
  assume a: "reachable_session s \<and> status s = Paused"
  then have "last_paused_at s \<noteq> None"
    using reachable_last_paused_at by blast
  with a show "Panel_timeLeft (Some s) now1 = Panel_timeLeft (Some s) now2"
    using Panel_timeLeft_frozen [of s] by simp
next
  assume "status s = Finished \<and> last_paused_at s = None \<and> start_time s = Some st"
  then show "Timer_timeLeft s now1 =
        max 0 (duration_minutes s * 60 - ((now1 - st) div 1000 - total_paused_duration_seconds s))"
    by (simp add: Timer_timeLeft_def floor_seconds_def)
next
  assume "status s = Finished \<and> last_paused_at s = None \<and> start_time s = Some st"
  then show "Panel_timeLeft (Some s) now1 =
        max 0 (duration_minutes s * 60 - ((now1 - st) div 1000 - total_paused_duration_seconds s))"
    by (simp add: Panel_timeLeft_def floor_seconds_def)
qed

theorem remaining_time_over_time_witness:
  "(10000::int) \<le> 20000
   \<and> Timer_timeLeft running_example 20000 \<le> Timer_timeLeft running_example 10000
   \<and> reachable_session paused_example \<and> status paused_example = Paused
   \<and> Timer_timeLeft paused_example 10000 = Timer_timeLeft paused_example 20000
   \<and> status finished_paused_example \<noteq> Started
   \<and> last_paused_at finished_paused_example \<noteq> None
   \<and> Panel_timeLeft (Some finished_paused_example) 10000
       = Panel_timeLeft (Some finished_paused_example) 20000
   \<and> status finished_running_example = Finished
   \<and> last_paused_at finished_running_example = None
   \<and> start_time finished_running_example = Some 0
   \<and> Timer_timeLeft finished_running_example 10000 = 50"
  using remaining_time_over_time [of 10000 20000 running_example 0]
    remaining_time_over_time [of 10000 20000 paused_example 0]
    remaining_time_over_time [of 10000 20000 finished_paused_example 0]
    remaining_time_over_time [of 10000 20000 finished_running_example 0]
    reachable_paused_example
  by (simp add: paused_example_def finished_paused_example_def finished_running_example_def
      running_example_def)

section \<open>The pause instant and the status\<close>

text \<open>
  Claim C7 says the pause instant is stored exactly while the session is paused, and is null
  after a Finish performed while paused. Start at 0, Pause at 10 s and Finish at 20 s, each
  a click on an enabled button, give a finished session that still stores the pause
  instant.
\<close>

theorem finish_while_paused_keeps_pause_instant:
  "test_sessions (run_actions (Some ''t1'') 1 quiz_catalogue initial_db
      [(Started, 0), (Paused, 10000), (Finished, 20000)]) = Some finished_paused_example
   \<and> reachable_session finished_paused_example
   \<and> status finished_paused_example = Finished
   \<and> last_paused_at finished_paused_example = Some 10000
   \<and> \<not> (last_paused_at finished_paused_example \<noteq> None
          \<longleftrightarrow> status finished_paused_example = Paused)"
  using reachable_finished_paused_example
  by (simp add: run_actions_def initial_db_def synced_start synced_pause synced_finish
      truthy_def default_session_def quiz_catalogue_def finished_paused_example_def
      paused_example_def running_example_def)

text \<open>
  Claim C7, amended. In every session state reachable from the default waiting session by
  clicks on enabled buttons, the pause instant is stored whenever the status is paused and
  is null whenever the status is waiting or started. Finish writes the status only: a
  Finish performed while paused leaves the pause instant stored, a Finish performed while
  started leaves it null.
\<close>

theorem pause_instant_invariant:
  assumes "reachable_session row"
  shows "(status row = Paused \<longrightarrow> last_paused_at row \<noteq> None)
       \<and> (status row = Waiting \<or> status row = Started \<longrightarrow> last_paused_at row = None)
       \<and> fst (handleControlAction
                 \<lparr>cp_session = Some row, selectedTestId = sel, duration = dur, tests = ts\<rparr>
                 now Finished None
                 \<lparr>test_sessions = Some row, student_answers = as, student_submissions = ss\<rparr>)
             = Inr ''test_finished''
       \<and> test_sessions (snd (handleControlAction
                 \<lparr>cp_session = Some row, selectedTestId = sel, duration = dur, tests = ts\<rparr>
                 now Finished None
                 \<lparr>test_sessions = Some row, student_answers = as, student_submissions = ss\<rparr>))
             = Some (row\<lparr>status := Finished\<rparr>)"
proof (intro conjI)
  from reachable_last_paused_at [OF assms]
  show "status row = Paused \<longrightarrow> last_paused_at row \<noteq> None"
    and "status row = Waiting \<or> status row = Started \<longrightarrow> last_paused_at row = None"
    by auto
next
  show "fst (handleControlAction
                 \<lparr>cp_session = Some row, selectedTestId = sel, duration = dur, tests = ts\<rparr>
                 now Finished None
                 \<lparr>test_sessions = Some row, student_answers = as, student_submissions = ss\<rparr>)
             = Inr ''test_finished''"
    by (simp add: handleControlAction_def control_updates_def auditAction_def)
next
  show "test_sessions (snd (handleControlAction
                 \<lparr>cp_session = Some row, selectedTestId = sel, duration = dur, tests = ts\<rparr>
                 now Finished None
                 \<lparr>test_sessions = Some row, student_answers = as, student_submissions = ss\<rparr>))
             = Some (row\<lparr>status := Finished\<rparr>)"
    by (simp add: handleControlAction_def control_updates_def only_status_def
        update_test_session_def apply_updates_def)
qed

theorem pause_instant_invariant_witness:
  "reachable_session paused_example
   \<and> status paused_example = Paused
   \<and> last_paused_at paused_example \<noteq> None
   \<and> reachable_session running_example
   \<and> status running_example = Started
   \<and> last_paused_at running_example = None
   \<and> test_sessions (snd (handleControlAction
          \<lparr>cp_session = Some paused_example, selectedTestId = None, duration = 1, tests = []\<rparr>
          20000 Finished None
          \<lparr>test_sessions = Some paused_example, student_answers = [], student_submissions = []\<rparr>))
        = Some finished_paused_example"
  using pause_instant_invariant [OF reachable_paused_example, of None 1 "[]" 20000 "[]" "[]"]
    pause_instant_invariant [OF reachable_running_example, of None 1 "[]" 20000 "[]" "[]"]
    reachable_paused_example reachable_running_example
  by (simp add: paused_example_def finished_paused_example_def running_example_def)

section \<open>No check of the source status\<close>

lemma control_updates_start:
  assumes "map_option status (cp_session cp) \<noteq> Some Paused"
  shows "control_updates cp now Started =
     (if \<not> truthy (testIdToStart cp) then Inl NoTestSelected
      else Inr ((only_status Started)\<lparr>u_start_time := Some (Some now),
                u_test_id := (if truthy (selectedTestId cp)
                              then Some (selectedTestId cp) else None),
                u_duration_minutes := Some (duration cp),
                u_test_title :=
                  map_option title (find (\<lambda>t. Some (tid t) = testIdToStart cp) (tests cp)),
                u_total_paused_duration_seconds := Some 0,
                u_last_paused_at := Some None\<rparr>))"
  using assms by (auto simp add: control_updates_def Let_def)

lemma control_updates_status:
  assumes "control_updates cp now newStatus = Inr u"
  shows "u_status u = Some newStatus"
  using assms
  by (auto simp add: control_updates_def only_status_def Let_def
      split: if_splits option.splits)

lemma control_updates_rejects:
  "control_updates cp now newStatus = Inl e \<longleftrightarrow>
     e = NoTestSelected \<and> newStatus = Started
     \<and> map_option status (cp_session cp) \<noteq> Some Paused
     \<and> \<not> truthy (testIdToStart cp)"
  by (auto simp add: control_updates_def Let_def split: if_splits option.splits)

lemma handleControlAction_written:
  assumes "newStatus \<noteq> Waiting" and "control_updates cp now newStatus = Inr u"
    and "test_sessions db = Some row"
  shows "handleControlAction cp now newStatus None db =
           (Inr (auditAction (map_option status (cp_session cp)) newStatus),
            db\<lparr>test_sessions := Some (apply_updates u row)\<rparr>)"
    and "handleControlAction cp now newStatus (Some msg) db = (Inl (UpdateFailed msg), db)"
    and "status (apply_updates u row) = newStatus"
  using assms control_updates_status [OF assms(2)]
  by (simp_all add: handleControlAction_def update_test_session_def apply_updates_def)

text \<open>
  Claim C3 says a transition from an illegal source status is rejected and leaves the row
  unchanged. The panel shows the waiting session, so its Start button is enabled, and Start
  is clicked twice before the change of the first click is delivered: the second request
  meets the started row, is written like the first and restarts the clock. Likewise a panel
  that still shows the running session has its Pause button enabled while the stored row is
  already finished: the Pause is written over the finished row.
\<close>

theorem illegal_transition_is_written:
  "button_enabled (Some default_session) Started
   \<and> handleControlAction
        \<lparr>cp_session = Some default_session, selectedTestId = Some ''t1'', duration = 1,
         tests = quiz_catalogue\<rparr>
        0 Started None initial_db
      = (Inr ''test_started'',
         \<lparr>test_sessions = Some running_example, student_answers = [],
          student_submissions = []\<rparr>)
   \<and> \<not> spec_legal_transition (status running_example) Started
   \<and> handleControlAction
        \<lparr>cp_session = Some default_session, selectedTestId = Some ''t1'', duration = 1,
         tests = quiz_catalogue\<rparr>
        30000 Started None
        \<lparr>test_sessions = Some running_example, student_answers = [], student_submissions = []\<rparr>
      = (Inr ''test_started'',
         \<lparr>test_sessions = Some (running_example\<lparr>start_time := Some 30000\<rparr>),
          student_answers = [], student_submissions = []\<rparr>)
   \<and> button_enabled (Some running_example) Paused
   \<and> \<not> spec_legal_transition (status finished_running_example) Paused
   \<and> handleControlAction
        \<lparr>cp_session = Some running_example, selectedTestId = None, duration = 1, tests = []\<rparr>
        40000 Paused None
        \<lparr>test_sessions = Some finished_running_example, student_answers = [],
         student_submissions = []\<rparr>
      = (Inr ''test_paused'',
         \<lparr>test_sessions = Some (finished_running_example
              \<lparr>status := Paused, last_paused_at := Some 40000\<rparr>),
          student_answers = [], student_submissions = []\<rparr>)"
  by (simp add: spec_legal_transition_def button_enabled_def default_session_def
      running_example_def finished_running_example_def quiz_catalogue_def
      handleControlAction_def control_updates_def only_status_def auditAction_def
      update_test_session_def apply_updates_def initial_db_def testIdToStart_def truthy_def)

text \<open>
  Claim C3, amended. \<open>handleControlAction\<close> compares no status and has no state-conflict
  error. A request for a status other than \<open>waiting\<close> is turned down in exactly one case:
  a Start (the requested status is \<open>started\<close> and the panel's snapshot is not paused)
  with no test selected and no test id on the snapshot; nothing is written then. In every
  other case the request is written to the row selected by its id, whatever the status of
  that row, unless the backend call fails, which writes nothing: a Pause sets the status and
  the pause instant, a Finish the status, a Resume or Start the status among its fields.
  Illegal transitions are excluded in the panel only: the button of a request is enabled
  exactly when the transition is legal from the status of the panel's snapshot.
\<close>

theorem transition_write_is_unguarded:
  assumes "newStatus \<noteq> Waiting" and "test_sessions db = Some row"
  shows "(if newStatus = Started
             \<and> map_option status (cp_session cp) \<noteq> Some Paused
             \<and> (selectedTestId cp = None \<or> selectedTestId cp = Some [])
             \<and> (case cp_session cp of
                    None \<Rightarrow> True
                  | Some s \<Rightarrow> test_id s = None \<or> test_id s = Some [])
          then handleControlAction cp now newStatus db_error db = (Inl NoTestSelected, db)
          else handleControlAction cp now newStatus (Some msg) db = (Inl (UpdateFailed msg), db)
             \<and> fst (handleControlAction cp now newStatus None db)
                 = Inr (case newStatus of
                          Started \<Rightarrow> (if map_option status (cp_session cp) = Some Paused
                                      then ''test_resumed'' else ''test_started'')
                        | Paused \<Rightarrow> ''test_paused''
                        | Finished \<Rightarrow> ''test_finished''
                        | Waiting \<Rightarrow> ''test_reset'')
             \<and> (\<exists>row'. snd (handleControlAction cp now newStatus None db)
                          = db\<lparr>test_sessions := Some row'\<rparr>
                        \<and> status row' = newStatus
                        \<and> (newStatus = Paused \<longrightarrow>
                              row' = row\<lparr>status := Paused, last_paused_at := Some now\<rparr>)
                        \<and> (newStatus = Finished \<longrightarrow> row' = row\<lparr>status := Finished\<rparr>)))
       \<and> button_enabled (Some snapshot) newStatus
           = spec_legal_transition (status snapshot) newStatus"
proof (rule conjI)
  show "button_enabled (Some snapshot) newStatus
           = spec_legal_transition (status snapshot) newStatus"
    by (cases newStatus; cases "status snapshot")
       (simp_all add: button_enabled_def spec_legal_transition_def)
next
  let ?no_test = "(selectedTestId cp = None \<or> selectedTestId cp = Some [])
             \<and> (case cp_session cp of
                    None \<Rightarrow> True
                  | Some s \<Rightarrow> test_id s = None \<or> test_id s = Some [])"
  have no_test: "?no_test \<longleftrightarrow> \<not> truthy (testIdToStart cp)"
    by (auto simp add: testIdToStart_def truthy_def split: option.splits)
  show "if newStatus = Started
             \<and> map_option status (cp_session cp) \<noteq> Some Paused
             \<and> ?no_test
          then handleControlAction cp now newStatus db_error db = (Inl NoTestSelected, db)
          else handleControlAction cp now newStatus (Some msg) db = (Inl (UpdateFailed msg), db)
             \<and> fst (handleControlAction cp now newStatus None db)
                 = Inr (case newStatus of
                          Started \<Rightarrow> (if map_option status (cp_session cp) = Some Paused
                                      then ''test_resumed'' else ''test_started'')
                        | Paused \<Rightarrow> ''test_paused''
                        | Finished \<Rightarrow> ''test_finished''
                        | Waiting \<Rightarrow> ''test_reset'')
             \<and> (\<exists>row'. snd (handleControlAction cp now newStatus None db)
                          = db\<lparr>test_sessions := Some row'\<rparr>
                        \<and> status row' = newStatus
                        \<and> (newStatus = Paused \<longrightarrow>
                              row' = row\<lparr>status := Paused, last_paused_at := Some now\<rparr>)
                        \<and> (newStatus = Finished \<longrightarrow> row' = row\<lparr>status := Finished\<rparr>))"
  proof (cases "control_updates cp now newStatus")
    case (Inl e)
    then have rej: "newStatus = Started" "map_option status (cp_session cp) \<noteq> Some Paused"
        "\<not> truthy (testIdToStart cp)" "e = NoTestSelected"
      using control_updates_rejects [of cp now newStatus e] by simp_all
    with Inl no_test show ?thesis
      by (simp add: handleControlAction_def del: not_None_eq)
  next
    case (Inr u)
    then have "\<not> (newStatus = Started \<and> map_option status (cp_session cp) \<noteq> Some Paused
        \<and> \<not> truthy (testIdToStart cp))"
      using control_updates_rejects [of cp now newStatus NoTestSelected] by auto
    then have not_rejected: "\<not> (newStatus = Started
             \<and> map_option status (cp_session cp) \<noteq> Some Paused \<and> ?no_test)"
      using no_test by blast
    note written = handleControlAction_written [OF assms(1) Inr assms(2)]
    have audit: "auditAction (map_option status (cp_session cp)) newStatus
        = (case newStatus of
             Started \<Rightarrow> (if map_option status (cp_session cp) = Some Paused
                         then ''test_resumed'' else ''test_started'')
           | Paused \<Rightarrow> ''test_paused''
           | Finished \<Rightarrow> ''test_finished''
           | Waiting \<Rightarrow> ''test_reset'')"
      using assms(1) by (cases newStatus) (simp_all add: auditAction_def)
    have paused: "apply_updates u row = row\<lparr>status := Paused, last_paused_at := Some now\<rparr>"
      if "newStatus = Paused"
      using that Inr by (auto simp add: control_updates_def only_status_def apply_updates_def)
    have finished: "apply_updates u row = row\<lparr>status := Finished\<rparr>"
      if "newStatus = Finished"
      using that Inr by (auto simp add: control_updates_def only_status_def apply_updates_def)
    have "\<exists>row'. snd (handleControlAction cp now newStatus None db)
                          = db\<lparr>test_sessions := Some row'\<rparr>
                        \<and> status row' = newStatus
                        \<and> (newStatus = Paused \<longrightarrow>
                              row' = row\<lparr>status := Paused, last_paused_at := Some now\<rparr>)
                        \<and> (newStatus = Finished \<longrightarrow> row' = row\<lparr>status := Finished\<rparr>)"
      using written(1,3) paused finished
      by (intro exI [of _ "apply_updates u row"]) simp
    with not_rejected written(1,2) audit show ?thesis
      by (simp only: if_False fst_conv simp_thms)
  qed
qed

theorem transition_write_is_unguarded_witness:
  "Paused \<noteq> Waiting
   \<and> test_sessions \<lparr>test_sessions = Some finished_running_example, student_answers = [],
                      student_submissions = []\<rparr> = Some finished_running_example
   \<and> button_enabled (Some running_example) Paused
   \<and> spec_legal_transition (status running_example) Paused
   \<and> handleControlAction
        \<lparr>cp_session = Some running_example, selectedTestId = None, duration = 1, tests = []\<rparr>
        40000 Paused (Some ''offline'')
        \<lparr>test_sessions = Some finished_running_example, student_answers = [],
         student_submissions = []\<rparr>
      = (Inl (UpdateFailed ''offline''),
         \<lparr>test_sessions = Some finished_running_example, student_answers = [],
          student_submissions = []\<rparr>)
   \<and> fst (handleControlAction
        \<lparr>cp_session = Some running_example, selectedTestId = None, duration = 1, tests = []\<rparr>
        40000 Paused None
        \<lparr>test_sessions = Some finished_running_example, student_answers = [],
         student_submissions = []\<rparr>) = Inr ''test_paused''
   \<and> (\<exists>row'. snd (handleControlAction
        \<lparr>cp_session = Some running_example, selectedTestId = None, duration = 1, tests = []\<rparr>
        40000 Paused None
        \<lparr>test_sessions = Some finished_running_example, student_answers = [],
         student_submissions = []\<rparr>)
          = \<lparr>test_sessions = Some row', student_answers = [], student_submissions = []\<rparr>
        \<and> row' = finished_running_example\<lparr>status := Paused, last_paused_at := Some 40000\<rparr>)
   \<and> Finished \<noteq> Waiting
   \<and> (\<exists>row'. snd (handleControlAction
        \<lparr>cp_session = Some paused_example, selectedTestId = None, duration = 1, tests = []\<rparr>
        20000 Finished None
        \<lparr>test_sessions = Some paused_example, student_answers = [], student_submissions = []\<rparr>)
          = \<lparr>test_sessions = Some row', student_answers = [], student_submissions = []\<rparr>
        \<and> row' = finished_paused_example)
   \<and> Started \<noteq> Waiting
   \<and> test_sessions initial_db = Some default_session
   \<and> selectedTestId
        \<lparr>cp_session = Some default_session, selectedTestId = None, duration = 60, tests = []\<rparr>
       = None
   \<and> test_id default_session = None
   \<and> handleControlAction
        \<lparr>cp_session = Some default_session, selectedTestId = None, duration = 60, tests = []\<rparr>
        5000 Started None initial_db = (Inl NoTestSelected, initial_db)"
  using transition_write_is_unguarded
    [where newStatus = Paused
       and db = "\<lparr>test_sessions = Some finished_running_example, student_answers = [],
                   student_submissions = []\<rparr>"
       and row = finished_running_example
       and cp = "\<lparr>cp_session = Some running_example, selectedTestId = None, duration = 1,
                  tests = []\<rparr>"
       and now = 40000 and msg = "''offline''" and snapshot = running_example]
    transition_write_is_unguarded
    [where newStatus = Finished
       and db = "\<lparr>test_sessions = Some paused_example, student_answers = [],
                   student_submissions = []\<rparr>"
       and row = paused_example
       and cp = "\<lparr>cp_session = Some paused_example, selectedTestId = None, duration = 1,
                  tests = []\<rparr>"
       and now = 20000 and snapshot = paused_example]
    transition_write_is_unguarded
    [where newStatus = Started and db = initial_db and row = default_session
       and cp = "\<lparr>cp_session = Some default_session, selectedTestId = None, duration = 60,
                  tests = []\<rparr>"
       and now = 5000 and db_error = None and snapshot = default_session]
  by (simp add: initial_db_def default_session_def running_example_def paused_example_def
      finished_running_example_def finished_paused_example_def button_enabled_def
      spec_legal_transition_def)

section \<open>Start\<close>

text \<open>
  Claim C9 says that whenever a test id is available Start sets the active test id and the
  title. With a test selected that is not in the panel's list, the finished session of test
  \<open>t1\<close> is started with test id \<open>t9\<close> and keeps the title of \<open>t1\<close>. With no test
  selected and a snapshot that still shows test \<open>t1\<close> while the stored row has just been
  reset, Start is accepted on the strength of the snapshot's id, writes no test id, and the
  started row has none.
\<close>

theorem start_leaves_title_or_test_id:
  "find (\<lambda>t. tid t = ''t9'') quiz_catalogue = None
   \<and> handleControlAction
        \<lparr>cp_session = Some finished_running_example, selectedTestId = Some ''t9'', duration = 1,
         tests = quiz_catalogue\<rparr>
        90000 Started None
        \<lparr>test_sessions = Some finished_running_example, student_answers = [],
         student_submissions = []\<rparr>
      = (Inr ''test_started'',
         \<lparr>test_sessions = Some
            \<lparr>ts_id = ''active_session'', test_id = Some ''t9'', status = Started,
             duration_minutes = 1, start_time = Some 90000, test_title = Some ''Quiz'',
             last_paused_at = None, total_paused_duration_seconds = 0\<rparr>,
          student_answers = [], student_submissions = []\<rparr>)
   \<and> snd (handleControlAction
        \<lparr>cp_session = Some finished_running_example, selectedTestId = None, duration = 1,
         tests = quiz_catalogue\<rparr>
        80000 Waiting None
        \<lparr>test_sessions = Some finished_running_example, student_answers = [],
         student_submissions = []\<rparr>)
      = \<lparr>test_sessions = Some
            \<lparr>ts_id = ''active_session'', test_id = None, status = Waiting,
             duration_minutes = 1, start_time = None, test_title = None,
             last_paused_at = None, total_paused_duration_seconds = 0\<rparr>,
          student_answers = [], student_submissions = []\<rparr>
   \<and> handleControlAction
        \<lparr>cp_session = Some finished_running_example, selectedTestId = None, duration = 1,
         tests = quiz_catalogue\<rparr>
        90000 Started None
        \<lparr>test_sessions = Some
            \<lparr>ts_id = ''active_session'', test_id = None, status = Waiting,
             duration_minutes = 1, start_time = None, test_title = None,
             last_paused_at = None, total_paused_duration_seconds = 0\<rparr>,
          student_answers = [], student_submissions = []\<rparr>
      = (Inr ''test_started'',
         \<lparr>test_sessions = Some
            \<lparr>ts_id = ''active_session'', test_id = None, status = Started,
             duration_minutes = 1, start_time = Some 90000, test_title = Some ''Quiz'',
             last_paused_at = None, total_paused_duration_seconds = 0\<rparr>,
          student_answers = [], student_submissions = []\<rparr>)"
  by (simp add: quiz_catalogue_def finished_running_example_def running_example_def
      handleControlAction_def control_updates_def only_status_def auditAction_def
      update_test_session_def apply_updates_def reset_test_session_def testIdToStart_def
      truthy_def)

text \<open>
  Claim C9, amended. A Start (the panel's snapshot is not paused) with no test selected
  and no test id on the snapshot ends with the validation alert and writes nothing. With a
  test selected, the stored row gets the status \<open>started\<close>, the start time \<open>now\<close>, the
  selected test id, the panel's duration, a zero accumulator and no pause instant. With no
  test selected and a test id on the snapshot, the same fields are written except the test
  id, which the stored row keeps as it is. In both cases the title is written only when the
  id is found in the panel's list of tests, and is then the title of that test; otherwise
  the stored title stays.
\<close>

theorem start_needs_a_test:
  assumes "map_option status (cp_session cp) \<noteq> Some Paused"
  shows "((selectedTestId cp = None \<or> selectedTestId cp = Some [])
          \<and> (case cp_session cp of
                 None \<Rightarrow> True
               | Some s \<Rightarrow> test_id s = None \<or> test_id s = Some []) \<longrightarrow>
          handleControlAction cp now Started db_error db = (Inl NoTestSelected, db))
       \<and> (selectedTestId cp = Some sid \<and> sid \<noteq> [] \<and> test_sessions db = Some row \<longrightarrow>
          handleControlAction cp now Started None db =
            (Inr ''test_started'',
             db\<lparr>test_sessions := Some (row
                \<lparr>status := Started,
                 start_time := Some now,
                 test_id := Some sid,
                 duration_minutes := duration cp,
                 test_title := (case find (\<lambda>t. tid t = sid) (tests cp) of
                                  None \<Rightarrow> test_title row | Some t \<Rightarrow> Some (title t)),
                 total_paused_duration_seconds := 0,
                 last_paused_at := None\<rparr>)\<rparr>))
       \<and> ((selectedTestId cp = None \<or> selectedTestId cp = Some [])
          \<and> cp_session cp = Some s \<and> test_id s = Some sid \<and> sid \<noteq> []
          \<and> test_sessions db = Some row \<longrightarrow>
          handleControlAction cp now Started None db =
            (Inr ''test_started'',
             db\<lparr>test_sessions := Some (row
                \<lparr>status := Started,
                 start_time := Some now,
                 duration_minutes := duration cp,
                 test_title := (case find (\<lambda>t. tid t = sid) (tests cp) of
                                  None \<Rightarrow> test_title row | Some t \<Rightarrow> Some (title t)),
                 total_paused_duration_seconds := 0,
                 last_paused_at := None\<rparr>)\<rparr>))"
proof (intro conjI impI)
  assume a: "(selectedTestId cp = None \<or> selectedTestId cp = Some [])
          \<and> (case cp_session cp of
                 None \<Rightarrow> True
               | Some s \<Rightarrow> test_id s = None \<or> test_id s = Some [])"
  then have "\<not> truthy (testIdToStart cp)"
    by (auto simp add: testIdToStart_def truthy_def split: option.splits)
  then show "handleControlAction cp now Started db_error db = (Inl NoTestSelected, db)"
    by (simp add: handleControlAction_def control_updates_start [OF assms])
next
  assume a: "selectedTestId cp = Some sid \<and> sid \<noteq> [] \<and> test_sessions db = Some row"
  then have sel: "truthy (selectedTestId cp)" and tid: "testIdToStart cp = Some sid"
    by (simp_all add: testIdToStart_def truthy_def)
  with a show "handleControlAction cp now Started None db =
            (Inr ''test_started'',
             db\<lparr>test_sessions := Some (row
                \<lparr>status := Started,
                 start_time := Some now,
                 test_id := Some sid,
                 duration_minutes := duration cp,
                 test_title := (case find (\<lambda>t. tid t = sid) (tests cp) of
                                  None \<Rightarrow> test_title row | Some t \<Rightarrow> Some (title t)),
                 total_paused_duration_seconds := 0,
                 last_paused_at := None\<rparr>)\<rparr>)"
    using assms
    by (simp add: handleControlAction_def control_updates_start [OF assms] auditAction_def
        update_test_session_def apply_updates_def only_status_def split: option.splits)
next
  assume a: "(selectedTestId cp = None \<or> selectedTestId cp = Some [])
          \<and> cp_session cp = Some s \<and> test_id s = Some sid \<and> sid \<noteq> []
          \<and> test_sessions db = Some row"
  then have sel: "\<not> truthy (selectedTestId cp)" and tid: "testIdToStart cp = Some sid"
    by (auto simp add: testIdToStart_def truthy_def)
  then have ok: "truthy (testIdToStart cp)"
    using a by (simp add: truthy_def)
  from a sel tid ok show "handleControlAction cp now Started None db =
            (Inr ''test_started'',
             db\<lparr>test_sessions := Some (row
                \<lparr>status := Started,
                 start_time := Some now,
                 duration_minutes := duration cp,
                 test_title := (case find (\<lambda>t. tid t = sid) (tests cp) of
                                  None \<Rightarrow> test_title row | Some t \<Rightarrow> Some (title t)),
                 total_paused_duration_seconds := 0,
                 last_paused_at := None\<rparr>)\<rparr>)"
    using assms
    by (simp add: handleControlAction_def control_updates_start [OF assms] auditAction_def
        update_test_session_def apply_updates_def only_status_def split: option.splits)
qed

theorem start_needs_a_test_witness:
  "map_option status (cp_session
      \<lparr>cp_session = Some default_session, selectedTestId = None, duration = 1,
       tests = quiz_catalogue\<rparr>) \<noteq> Some Paused
   \<and> test_id default_session = None
   \<and> handleControlAction
        \<lparr>cp_session = Some default_session, selectedTestId = None, duration = 1,
         tests = quiz_catalogue\<rparr>
        0 Started None initial_db = (Inl NoTestSelected, initial_db)
   \<and> test_sessions initial_db = Some default_session
   \<and> handleControlAction
        \<lparr>cp_session = Some default_session, selectedTestId = Some ''t1'', duration = 1,
         tests = quiz_catalogue\<rparr>
        0 Started None initial_db
      = (Inr ''test_started'',
         \<lparr>test_sessions = Some running_example, student_answers = [], student_submissions = []\<rparr>)
   \<and> test_id finished_running_example = Some ''t1''
   \<and> status finished_running_example \<noteq> Paused
   \<and> handleControlAction
        \<lparr>cp_session = Some finished_running_example, selectedTestId = None, duration = 2,
         tests = quiz_catalogue\<rparr>
        90000 Started None
        \<lparr>test_sessions = Some finished_running_example, student_answers = [],
         student_submissions = []\<rparr>
      = (Inr ''test_started'',
         \<lparr>test_sessions = Some (running_example\<lparr>duration_minutes := 2, start_time := Some 90000\<rparr>),
          student_answers = [], student_submissions = []\<rparr>)"
  using start_needs_a_test
    [where cp = "\<lparr>cp_session = Some default_session, selectedTestId = None, duration = 1,
                  tests = quiz_catalogue\<rparr>"
       and now = 0 and db_error = None and db = initial_db]
    start_needs_a_test
    [where cp = "\<lparr>cp_session = Some default_session, selectedTestId = Some ''t1'', duration = 1,
                  tests = quiz_catalogue\<rparr>"
       and now = 0 and db = initial_db and row = default_session and sid = "''t1''"]
    start_needs_a_test
    [where cp = "\<lparr>cp_session = Some finished_running_example, selectedTestId = None,
                  duration = 2, tests = quiz_catalogue\<rparr>"
       and now = 90000
       and db = "\<lparr>test_sessions = Some finished_running_example, student_answers = [],
                   student_submissions = []\<rparr>"
       and row = finished_running_example and s = finished_running_example and sid = "''t1''"]
  by (simp add: default_session_def initial_db_def quiz_catalogue_def running_example_def
      finished_running_example_def)

section \<open>Pause and Resume\<close>

lemma round_seconds_lower: "- 500 \<le> d - 1000 * round_seconds d"
proof -
  have "d + 500 = 1000 * ((d + 500) div 1000) + (d + 500) mod 1000"
    by simp
  moreover have "(d + 500) mod 1000 \<ge> 0"
    by simp
  ultimately show ?thesis
    unfolding round_seconds_def by linarith
qed

lemma round_seconds_upper: "d - 1000 * round_seconds d < 500"
proof -
  have "d + 500 = 1000 * ((d + 500) div 1000) + (d + 500) mod 1000"
    by simp
  moreover have "(d + 500) mod 1000 < 1000"
    by simp
  ultimately show ?thesis
    unfolding round_seconds_def by linarith
qed

lemma floor_seconds_lower: "0 \<le> d - 1000 * floor_seconds d"
proof -
  have "d = 1000 * (d div 1000) + d mod 1000"
    by simp
  moreover have "0 \<le> d mod 1000"
    by simp
  ultimately show ?thesis
    unfolding floor_seconds_def by linarith
qed

lemma floor_seconds_upper: "d - 1000 * floor_seconds d < 1000"
proof -
  have "d = 1000 * (d div 1000) + d mod 1000"
    by simp
  moreover have "d mod 1000 < 1000"
    by simp
  ultimately show ?thesis
    unfolding floor_seconds_def by linarith
qed

lemma sum_round_seconds_error:
  "\<bar>(\<Sum>pr\<leftarrow>pairs. snd pr - fst pr) - 1000 * (\<Sum>pr\<leftarrow>pairs. round_seconds (snd pr - fst pr))\<bar>
     \<le> 500 * int (length pairs)"
proof (induction pairs)
  case Nil
  show ?case by simp
next
  case (Cons pr pairs)
  from round_seconds_lower [of "snd pr - fst pr"] round_seconds_upper [of "snd pr - fst pr"]
    Cons.IH
  show ?case by (simp add: algebra_simps)
qed

lemma running_ms_eq:
  "running_ms t pairs now = (now - t) - (\<Sum>pr\<leftarrow>pairs. snd pr - fst pr)"
  by (induction t pairs now rule: running_ms.induct) simp_all

lemma pause_resume_run:
  assumes "test_sessions db = Some row" and "status row = Started"
  shows "\<exists>row'. test_sessions (foldl (synced_action sel dur ts) db (pause_resume_events pairs))
                  = Some row'
           \<and> status row' = Started
           \<and> start_time row' = start_time row
           \<and> duration_minutes row' = duration_minutes row
           \<and> last_paused_at row' = (if pairs = [] then last_paused_at row else None)
           \<and> total_paused_duration_seconds row' =
               total_paused_duration_seconds row
               + (\<Sum>pr\<leftarrow>pairs. round_seconds (snd pr - fst pr))"
  using assms
proof (induction pairs arbitrary: db row)
  case Nil
  then show ?case by (simp add: pause_resume_events_def)
next
  case (Cons pr pairs)
  let ?paused = "row\<lparr>status := Paused, last_paused_at := Some (fst pr)\<rparr>"
  let ?resumed = "?paused\<lparr>status := Started, last_paused_at := None,
        total_paused_duration_seconds :=
          total_paused_duration_seconds ?paused + round_seconds (snd pr - fst pr)\<rparr>"
  let ?db1 = "synced_action sel dur ts db (Paused, fst pr)"
  let ?db2 = "synced_action sel dur ts ?db1 (Started, snd pr)"
  have db1: "test_sessions ?db1 = Some ?paused"
    by (simp add: synced_pause [OF Cons.prems(1)])
  have db2: "test_sessions ?db2 = Some ?resumed"
    by (simp add: synced_resume [OF db1])
  have st: "status ?resumed = Started"
    by simp
  have ev: "pause_resume_events (pr # pairs)
      = (Paused, fst pr) # (Started, snd pr) # pause_resume_events pairs"
    by (simp add: pause_resume_events_def)
  from Cons.IH [OF db2 st] show ?case
    unfolding ev by (auto simp add: algebra_simps)
qed

text \<open>
  Claim C8 says that right after a Resume the net elapsed time is within one second of the
  time the run has spent started. Each pause is added in whole seconds, rounded to the
  nearest, so five pauses of 499 ms add nothing: right after the fifth resume, 5.499 s after
  the start, the net elapsed time is 5 seconds while the run has been started for 3.004 s.
\<close>

theorem short_pauses_are_not_counted:
  "test_sessions (run_actions (Some ''t1'') 1 quiz_catalogue initial_db
      ((Started, 0) # pause_resume_events short_pauses)) = Some running_example
   \<and> total_paused_duration_seconds running_example = 0
   \<and> netElapsedSeconds running_example 0 5499 = 5
   \<and> running_ms 0 short_pauses 5499 = 3004
   \<and> \<not> \<bar>1000 * netElapsedSeconds running_example 0 5499 - running_ms 0 short_pauses 5499\<bar>
         \<le> 1000"
  by (simp add: run_actions_def initial_db_def pause_resume_events_def short_pauses_def
      synced_start synced_pause synced_resume truthy_def default_session_def
      quiz_catalogue_def running_example_def round_seconds_def netElapsedSeconds_def
      floor_seconds_def)

text \<open>
  Claim C8, amended. Resume, requested on a paused session that stores a pause instant,
  adds \<open>now - lastPausedAt\<close> rounded to the nearest whole second (a half rounds up) to
  the accumulator and clears the pause instant. After a Start at \<open>start\<close> followed by \<open>n\<close>
  Pause/Resume pairs the accumulator is the sum of the rounded pauses, and the net elapsed
  time at any instant \<open>now\<close>, in particular at the last resume, differs from the time
  spent started by less than \<open>1 + n / 2\<close> seconds.
\<close>

theorem resume_adds_rounded_pause:
  "(test_sessions db = Some row \<and> cp_session cp = Some row \<and> status row = Paused
      \<and> last_paused_at row = Some p \<longrightarrow>
      handleControlAction cp now Started None db =
        (Inr ''test_resumed'',
         db\<lparr>test_sessions := Some (row
            \<lparr>status := Started,
             total_paused_duration_seconds :=
               total_paused_duration_seconds row + round_seconds (now - p),
             last_paused_at := None\<rparr>)\<rparr>))
   \<and> (truthy sel \<and> test_sessions db = Some row \<and> status row \<noteq> Paused \<longrightarrow>
        (\<exists>row'. test_sessions (run_actions sel dur ts db
                      ((Started, start) # pause_resume_events pairs)) = Some row'
           \<and> status row' = Started
           \<and> start_time row' = Some start
           \<and> total_paused_duration_seconds row' =
               (\<Sum>pr\<leftarrow>pairs. round_seconds (snd pr - fst pr))
           \<and> \<bar>1000 * netElapsedSeconds row' start now - running_ms start pairs now\<bar>
               < 1000 + 500 * int (length pairs)))"
proof (intro conjI impI)
  assume a: "test_sessions db = Some row \<and> cp_session cp = Some row \<and> status row = Paused
      \<and> last_paused_at row = Some p"
  then show "handleControlAction cp now Started None db =
        (Inr ''test_resumed'',
         db\<lparr>test_sessions := Some (row
            \<lparr>status := Started,
             total_paused_duration_seconds :=
               total_paused_duration_seconds row + round_seconds (now - p),
             last_paused_at := None\<rparr>)\<rparr>)"
    by (simp add: handleControlAction_def control_updates_def only_status_def auditAction_def
        update_test_session_def apply_updates_def)
next
  assume a: "truthy sel \<and> test_sessions db = Some row \<and> status row \<noteq> Paused"
  let ?started = "row\<lparr>status := Started, test_id := sel,
                  duration_minutes := dur, start_time := Some start,
                  test_title := (case find (\<lambda>t. Some (tid t) = sel) ts of
                                   None \<Rightarrow> test_title row | Some t \<Rightarrow> Some (title t)),
                  last_paused_at := None, total_paused_duration_seconds := 0\<rparr>"
  let ?db1 = "synced_action sel dur ts db (Started, start)"
  from a have db1: "test_sessions ?db1 = Some ?started"
    by (simp add: synced_start)
  have st: "status ?started = Started"
    by simp
  from pause_resume_run [OF db1 st, of sel dur ts pairs]
  obtain row' where run: "test_sessions (foldl (synced_action sel dur ts) ?db1
                              (pause_resume_events pairs)) = Some row'"
    and row': "status row' = Started" "start_time row' = Some start"
      "total_paused_duration_seconds row' = (\<Sum>pr\<leftarrow>pairs. round_seconds (snd pr - fst pr))"
    by auto
  have "\<bar>1000 * netElapsedSeconds row' start now - running_ms start pairs now\<bar>
          < 1000 + 500 * int (length pairs)"
    using floor_seconds_lower [of "now - start"] floor_seconds_upper [of "now - start"]
      sum_round_seconds_error [of pairs]
    unfolding netElapsedSeconds_def running_ms_eq or_zero_id row'(3) abs_less_iff abs_le_iff
    by (simp add: algebra_simps)
  with run row' show "\<exists>row'. test_sessions (run_actions sel dur ts db
                      ((Started, start) # pause_resume_events pairs)) = Some row'
           \<and> status row' = Started
           \<and> start_time row' = Some start
           \<and> total_paused_duration_seconds row' =
               (\<Sum>pr\<leftarrow>pairs. round_seconds (snd pr - fst pr))
           \<and> \<bar>1000 * netElapsedSeconds row' start now - running_ms start pairs now\<bar>
               < 1000 + 500 * int (length pairs)"
    by (simp add: run_actions_def)
qed

theorem resume_adds_rounded_pause_witness:
  "test_sessions \<lparr>test_sessions = Some paused_example, student_answers = [],
                   student_submissions = []\<rparr> = Some paused_example
   \<and> status paused_example = Paused
   \<and> last_paused_at paused_example = Some 10000
   \<and> handleControlAction
        \<lparr>cp_session = Some paused_example, selectedTestId = None, duration = 1, tests = []\<rparr>
        40000 Started None
        \<lparr>test_sessions = Some paused_example, student_answers = [], student_submissions = []\<rparr>
      = (Inr ''test_resumed'',
         \<lparr>test_sessions = Some (running_example\<lparr>total_paused_duration_seconds := 30\<rparr>),
          student_answers = [], student_submissions = []\<rparr>)
   \<and> truthy (Some ''t1'')
   \<and> test_sessions initial_db = Some default_session
   \<and> status default_session \<noteq> Paused
   \<and> (\<exists>row'. test_sessions (run_actions (Some ''t1'') 1 quiz_catalogue initial_db
                    ((Started, 0) # pause_resume_events short_pauses)) = Some row'
          \<and> \<bar>1000 * netElapsedSeconds row' 0 5499 - running_ms 0 short_pauses 5499\<bar> < 3500)"
  using resume_adds_rounded_pause
    [where db = "\<lparr>test_sessions = Some paused_example, student_answers = [],
                   student_submissions = []\<rparr>"
       and row = paused_example
       and cp = "\<lparr>cp_session = Some paused_example, selectedTestId = None, duration = 1,
                  tests = []\<rparr>"
       and p = 10000 and now = 40000 and sel = None]
    resume_adds_rounded_pause
    [where db = initial_db and row = default_session and sel = "Some ''t1''" and dur = 1
       and ts = quiz_catalogue and start = 0 and pairs = short_pauses and now = 5499]
  by (auto simp add: paused_example_def running_example_def round_seconds_def truthy_def
      initial_db_def default_session_def short_pauses_def)

section \<open>Reset\<close>

text \<open>
  Claim C4. A Reset request, whatever the status of the row and of the panel's snapshot,
  is one call of the routine \<open>reset_test_session\<close>: when the call fails nothing changes;
  when it succeeds the row is waiting with no test id, no start time, no pause instant, a
  zero accumulator and no title, and both the answers and the submissions tables are empty.
  A Start that follows leaves the accumulator at 0 and both tables empty, and starts the
  session when a test is selected. A student client that receives the reset row while its
  session is not waiting drops its answers and its submitted flag.
\<close>

theorem reset_clears_session_and_rows:
  "handleControlAction cp now Waiting (Some msg) db = (Inl (ResetFailed msg), db)
   \<and> fst (handleControlAction cp now Waiting None db) = Inr ''test_reset''
   \<and> student_answers (snd (handleControlAction cp now Waiting None db)) = []
   \<and> student_submissions (snd (handleControlAction cp now Waiting None db)) = []
   \<and> (test_sessions db = Some row \<longrightarrow>
        test_sessions (snd (handleControlAction cp now Waiting None db)) =
          Some (row\<lparr>status := Waiting, test_id := None, start_time := None,
                     test_title := None, last_paused_at := None,
                     total_paused_duration_seconds := 0\<rparr>)
        \<and> (\<exists>row'. test_sessions
                      (synced_action sel dur ts (snd (handleControlAction cp now Waiting None db))
                         (Started, now')) = Some row'
               \<and> total_paused_duration_seconds row' = 0
               \<and> (truthy sel \<longrightarrow> status row' = Started \<and> start_time row' = Some now')))
   \<and> student_answers
        (synced_action sel dur ts (snd (handleControlAction cp now Waiting None db))
           (Started, now')) = []
   \<and> student_submissions
        (synced_action sel dur ts (snd (handleControlAction cp now Waiting None db))
           (Started, now')) = []
   \<and> (status newSession = Waiting \<and> map_option status (st_session c) \<noteq> Some Waiting \<longrightarrow>
        answers (on_session_change c newSession) = []
        \<and> \<not> isSubmitted (on_session_change c newSession)
        \<and> st_session (on_session_change c newSession) = Some newSession)"
proof -
  let ?db1 = "snd (handleControlAction cp now Waiting None db)"
  let ?db2 = "synced_action sel dur ts ?db1 (Started, now')"
  have db1: "?db1 = reset_test_session db"
    by (simp add: handleControlAction_def)
  have tables: "student_answers ?db2 = student_answers ?db1
      \<and> student_submissions ?db2 = student_submissions ?db1"
    by (simp add: synced_action_def handleControlAction_def update_test_session_def
        split: sum.splits)
  have row_part: "test_sessions (snd (handleControlAction cp now Waiting None db)) =
          Some (row\<lparr>status := Waiting, test_id := None, start_time := None,
                     test_title := None, last_paused_at := None,
                     total_paused_duration_seconds := 0\<rparr>)
        \<and> (\<exists>row'. test_sessions ?db2 = Some row'
               \<and> total_paused_duration_seconds row' = 0
               \<and> (truthy sel \<longrightarrow> status row' = Started \<and> start_time row' = Some now'))"
    if row: "test_sessions db = Some row"
  proof -
    let ?cleared = "row\<lparr>status := Waiting, test_id := None, start_time := None,
                     test_title := None, last_paused_at := None,
                     total_paused_duration_seconds := 0\<rparr>"
    have cleared: "test_sessions ?db1 = Some ?cleared"
      using row by (simp add: db1 reset_test_session_def)
    have "\<exists>row'. test_sessions ?db2 = Some row'
               \<and> total_paused_duration_seconds row' = 0
               \<and> (truthy sel \<longrightarrow> status row' = Started \<and> start_time row' = Some now')"
    proof (cases "truthy sel")
      case True
      then show ?thesis
        by (simp add: synced_start [OF cleared])
    next
      case False
      then have "?db2 = ?db1"
        using cleared
        by (simp add: synced_action_def handleControlAction_def control_updates_start
            testIdToStart_def truthy_def)
      with cleared False show ?thesis by simp
    qed
    with cleared show ?thesis by simp
  qed
  show ?thesis
  proof (intro conjI impI)
    show "handleControlAction cp now Waiting (Some msg) db = (Inl (ResetFailed msg), db)"
      by (simp add: handleControlAction_def)
    show "fst (handleControlAction cp now Waiting None db) = Inr ''test_reset''"
      by (simp add: handleControlAction_def)
    show "student_answers ?db1 = []" and "student_submissions ?db1 = []"
      by (simp_all add: db1 reset_test_session_def)
    then show "student_answers ?db2 = []" and "student_submissions ?db2 = []"
      using tables by simp_all
  next
    assume "test_sessions db = Some row"
    from row_part [OF this]
    show "test_sessions (snd (handleControlAction cp now Waiting None db)) =
          Some (row\<lparr>status := Waiting, test_id := None, start_time := None,
                     test_title := None, last_paused_at := None,
                     total_paused_duration_seconds := 0\<rparr>)"
      and "\<exists>row'. test_sessions ?db2 = Some row'
               \<and> total_paused_duration_seconds row' = 0
               \<and> (truthy sel \<longrightarrow> status row' = Started \<and> start_time row' = Some now')"
      by simp_all
  next
    assume a: "status newSession = Waiting \<and> map_option status (st_session c) \<noteq> Some Waiting"
    then show "answers (on_session_change c newSession) = []"
      and "\<not> isSubmitted (on_session_change c newSession)"
      and "st_session (on_session_change c newSession) = Some newSession"
      by (simp_all add: on_session_change_def)
  qed
qed

theorem reset_clears_session_and_rows_witness:
  "test_sessions busy_db = Some paused_example
   \<and> student_answers busy_db \<noteq> [] \<and> student_submissions busy_db \<noteq> []
   \<and> handleControlAction
        \<lparr>cp_session = Some paused_example, selectedTestId = Some ''t1'', duration = 1,
         tests = quiz_catalogue\<rparr> 50000 Waiting None busy_db
      = (Inr ''test_reset'',
         \<lparr>test_sessions = Some (paused_example
              \<lparr>status := Waiting, test_id := None, start_time := None, test_title := None,
               last_paused_at := None, total_paused_duration_seconds := 0\<rparr>),
          student_answers = [], student_submissions = []\<rparr>)
   \<and> truthy (Some ''t1'')
   \<and> (\<exists>row'. test_sessions
          (synced_action (Some ''t1'') 1 quiz_catalogue
             (snd (handleControlAction
                \<lparr>cp_session = Some paused_example, selectedTestId = Some ''t1'', duration = 1,
                 tests = quiz_catalogue\<rparr> 50000 Waiting None busy_db))
             (Started, 60000)) = Some row'
          \<and> total_paused_duration_seconds row' = 0 \<and> status row' = Started)
   \<and> status default_session = Waiting
   \<and> map_option status (st_session (fresh_client\<lparr>answers := [(''q1'', 2)]\<rparr>)) \<noteq> Some Waiting
   \<and> answers (on_session_change (fresh_client\<lparr>answers := [(''q1'', 2)]\<rparr>) default_session) = []"
  using reset_clears_session_and_rows
    [where cp = "\<lparr>cp_session = Some paused_example, selectedTestId = Some ''t1'', duration = 1,
                  tests = quiz_catalogue\<rparr>"
       and now = 50000 and db = busy_db and row = paused_example and sel = "Some ''t1''"
       and dur = 1 and ts = quiz_catalogue and now' = 60000 and newSession = default_session
       and c = "fresh_client\<lparr>answers := [(''q1'', 2)]\<rparr>" and msg = "''offline''"]
  by (auto simp add: busy_db_def truthy_def default_session_def fresh_client_def
      running_example_def prod_eq_iff)

section \<open>Answers\<close>

lemma upsert_answer_keys:
  "set (map answer_key (upsert_answer a rows)) = insert (answer_key a) (set (map answer_key rows))"
  by (induction rows) auto

lemma upsert_answer_distinct:
  assumes "distinct (map answer_key rows)"
  shows "distinct (map answer_key (upsert_answer a rows))"
  using assms
proof (induction rows)
  case Nil
  show ?case by simp
next
  case (Cons r rows)
  then show ?case
    using upsert_answer_keys [of a rows] by auto
qed

lemma upsert_answer_filter:
  assumes "distinct (map answer_key rows)"
  shows "filter (\<lambda>r. answer_key r = answer_key a) (upsert_answer a rows) = [a]"
  using assms
proof (induction rows)
  case Nil
  show ?case by simp
next
  case (Cons r rows)
  show ?case
  proof (cases "answer_key r = answer_key a")
    case True
    with Cons.prems have "\<forall>x\<in>set rows. answer_key x \<noteq> answer_key a"
      by (auto simp add: image_iff)
    then have "filter (\<lambda>r. answer_key r = answer_key a) rows = []"
      by (simp add: filter_empty_conv)
    with True show ?thesis by simp
  next
    case False
    with Cons show ?thesis by simp
  qed
qed

lemma upsert_answer_other_keys:
  assumes "k \<noteq> answer_key a"
  shows "filter (\<lambda>r. answer_key r = k) (upsert_answer a rows)
       = filter (\<lambda>r. answer_key r = k) rows"
  using assms by (induction rows) auto

lemma upsert_answer_length:
  "length (upsert_answer a rows) =
     (if answer_key a \<in> set (map answer_key rows) then length rows else Suc (length rows))"
  by (induction rows) auto

lemma upsert_answer_idem:
  "upsert_answer a (upsert_answer a rows) = upsert_answer a rows"
  by (induction rows) auto

lemma map_of_Map_set: "map_of (Map_set k v m) = (map_of m)(k \<mapsto> v)"
  by (induction m) (auto simp add: fun_eq_iff)

lemma Map_set_member: "(k, v) \<in> set (Map_set k v m)"
  by (induction m) auto

text \<open>
  Claim C5. The answer write is an upsert on (session, student, question). On a table whose
  keys are distinct, two selections for the same question, with different options or the
  same, leave exactly one row for the key, holding the second option; every other key keeps
  its rows;
  the keys stay distinct; and repeating the second selection changes nothing in the table.
\<close>

theorem answer_upsert_keeps_one_row:
  assumes "distinct (map answer_key (student_answers db))"
  shows "(let r1 = handleSelectOption c u q i1 None db;
              r2 = handleSelectOption (fst r1) u q i2 None (fst (snd r1));
              r3 = handleSelectOption (fst r2) u q i2 None (fst (snd r2))
          in filter (\<lambda>r. answer_key r = (''active_session'', u, q))
                 (student_answers (fst (snd r2)))
               = [\<lparr>session_id = ''active_session'', student_id = u, question_id = q,
                   selected_option_index = i2\<rparr>]
             \<and> distinct (map answer_key (student_answers (fst (snd r2))))
             \<and> length (student_answers (fst (snd r2))) = length (student_answers (fst (snd r1)))
             \<and> fst (snd r3) = fst (snd r2)
             \<and> map_of (answers (fst r2)) q = Some i2)
       \<and> (k \<noteq> (''active_session'', u, q) \<longrightarrow>
            filter (\<lambda>r. answer_key r = k)
              (student_answers (fst (snd (handleSelectOption c u q i1 None db))))
            = filter (\<lambda>r. answer_key r = k) (student_answers db))"
proof -
  let ?a1 = "\<lparr>session_id = ''active_session'', student_id = u, question_id = q,
              selected_option_index = i1\<rparr>"
  let ?a2 = "\<lparr>session_id = ''active_session'', student_id = u, question_id = q,
              selected_option_index = i2\<rparr>"
  let ?t1 = "upsert_answer ?a1 (student_answers db)"
  let ?t2 = "upsert_answer ?a2 ?t1"
  have key: "answer_key ?a2 = (''active_session'', u, q)" "answer_key ?a1 = (''active_session'', u, q)"
    by (simp_all add: answer_key_def)
  have d1: "distinct (map answer_key ?t1)"
    using assms by (rule upsert_answer_distinct)
  then have d2: "distinct (map answer_key ?t2)"
    by (rule upsert_answer_distinct)
  have one: "filter (\<lambda>r. answer_key r = (''active_session'', u, q)) ?t2 = [?a2]"
    using upsert_answer_filter [OF d1, of ?a2] by (simp add: key)
  have len: "length ?t2 = length ?t1"
    using upsert_answer_keys [of ?a1 "student_answers db"]
    by (simp add: upsert_answer_length key)
  have idem: "upsert_answer ?a2 ?t2 = ?t2"
    by (rule upsert_answer_idem)
  have other: "filter (\<lambda>r. answer_key r = k) ?t1
             = filter (\<lambda>r. answer_key r = k) (student_answers db)"
    if "k \<noteq> (''active_session'', u, q)"
    using that upsert_answer_other_keys [of k ?a1] by (simp add: key)
  show ?thesis
    using one d2 len idem other
    by (simp add: handleSelectOption_def Let_def map_of_Map_set)
qed

theorem answer_upsert_keeps_one_row_witness:
  "distinct (map answer_key (student_answers busy_db))
   \<and> student_answers (fst (snd (handleSelectOption
        (fst (handleSelectOption fresh_client ''u1'' ''q1'' 1 None busy_db)) ''u1'' ''q1'' 3 None
        (fst (snd (handleSelectOption fresh_client ''u1'' ''q1'' 1 None busy_db))))))
      = [\<lparr>session_id = ''active_session'', student_id = ''u1'', question_id = ''q1'',
          selected_option_index = 3\<rparr>]
   \<and> (''active_session'', ''u2'', ''q1'') \<noteq> (''active_session'', ''u1'', ''q1'')
   \<and> filter (\<lambda>r. answer_key r = (''active_session'', ''u2'', ''q1''))
        (student_answers (fst (snd (handleSelectOption fresh_client ''u1'' ''q1'' 1 None busy_db))))
      = filter (\<lambda>r. answer_key r = (''active_session'', ''u2'', ''q1''))
          (student_answers busy_db)"
  using answer_upsert_keeps_one_row [of busy_db fresh_client "''u1''" "''q1''" 1 3
      "(''active_session'', ''u2'', ''q1'')"]
  by (simp add: busy_db_def handleSelectOption_def answer_key_def Let_def)

text \<open>
  Claim C10. After \<open>handleSelectOption\<close> the client's answers map the question to the
  chosen option whether or not the upsert fails. When it fails the error is only logged: the
  database is unchanged, so no row for the selection is stored unless one was there before,
  while the selection is an entry of the local map, is counted by the report as answered
  and, when the option is flagged correct, as correct.
\<close>

theorem local_answer_survives_failed_save:
  "map_of (answers (fst (handleSelectOption c u q i db_error db))) q = Some i
   \<and> (q, i) \<in> set (answers (fst (handleSelectOption c u q i db_error db)))
   \<and> 1 \<le> answeredQuestions (answers (fst (handleSelectOption c u q i db_error db)))
   \<and> questions (fst (handleSelectOption c u q i db_error db)) = questions c
   \<and> (answer_is_correct (questions c) (q, i) \<longrightarrow>
        1 \<le> correctAnswers (questions c)
               (answers (fst (handleSelectOption c u q i db_error db))))
   \<and> (db_error = Some msg \<longrightarrow>
        snd (handleSelectOption c u q i db_error db) = (db, Some msg))
   \<and> (db_error = None \<longrightarrow>
        \<lparr>session_id = ''active_session'', student_id = u, question_id = q,
         selected_option_index = i\<rparr>
          \<in> set (student_answers (fst (snd (handleSelectOption c u q i db_error db)))))"
proof -
  let ?c' = "fst (handleSelectOption c u q i db_error db)"
  have ans: "answers ?c' = Map_set q i (answers c)" and qs: "questions ?c' = questions c"
    by (simp_all add: handleSelectOption_def Let_def split: option.splits)
  have mem: "(q, i) \<in> set (answers ?c')"
    unfolding ans by (rule Map_set_member)
  then have "answers ?c' \<noteq> []"
    by auto
  then have answered: "1 \<le> answeredQuestions (answers ?c')"
    by (cases "answers ?c'") (simp_all add: answeredQuestions_def)
  have correct: "1 \<le> correctAnswers (questions c) (answers ?c')"
    if "answer_is_correct (questions c) (q, i)"
  proof -
    from mem that have "(q, i) \<in> set (filter (answer_is_correct (questions c)) (answers ?c'))"
      by simp
    then have "filter (answer_is_correct (questions c)) (answers ?c') \<noteq> []"
      by (metis empty_iff empty_set)
    then show ?thesis
      by (cases "filter (answer_is_correct (questions c)) (answers ?c')")
         (simp_all add: correctAnswers_def)
  qed
  have stored: "\<lparr>session_id = ''active_session'', student_id = u, question_id = q,
         selected_option_index = i\<rparr>
          \<in> set (upsert_answer \<lparr>session_id = ''active_session'', student_id = u, question_id = q,
         selected_option_index = i\<rparr> rows)" for rows
    by (induction rows) auto
  have looked_up: "map_of (answers ?c') q = Some i"
    by (simp add: ans map_of_Map_set)
  have failed: "snd (handleSelectOption c u q i db_error db) = (db, Some msg)"
    if "db_error = Some msg"
    using that by (simp add: handleSelectOption_def Let_def)
  have saved: "\<lparr>session_id = ''active_session'', student_id = u, question_id = q,
         selected_option_index = i\<rparr>
          \<in> set (student_answers (fst (snd (handleSelectOption c u q i db_error db))))"
    if "db_error = None"
    using that stored by (simp add: handleSelectOption_def Let_def)
  show ?thesis
    using looked_up mem answered qs correct failed saved
    by (intro conjI impI) assumption+
qed

theorem local_answer_survives_failed_save_witness:
  "answers (fst (handleSelectOption
       (fresh_client\<lparr>questions := [\<lparr>qid = ''q1'', q_test_id = ''t1'', question_text = ''2 + 2'',
                                     options = [\<lparr>option_text = ''3'', isCorrect = False\<rparr>,
                                                \<lparr>option_text = ''4'', isCorrect = True\<rparr>]\<rparr>]\<rparr>)
       ''u1'' ''q1'' 1 (Some ''offline'') initial_db)) = [(''q1'', 1)]
   \<and> answer_is_correct
        [\<lparr>qid = ''q1'', q_test_id = ''t1'', question_text = ''2 + 2'',
          options = [\<lparr>option_text = ''3'', isCorrect = False\<rparr>,
                     \<lparr>option_text = ''4'', isCorrect = True\<rparr>]\<rparr>] (''q1'', 1)
   \<and> 1 \<le> correctAnswers
        [\<lparr>qid = ''q1'', q_test_id = ''t1'', question_text = ''2 + 2'',
          options = [\<lparr>option_text = ''3'', isCorrect = False\<rparr>,
                     \<lparr>option_text = ''4'', isCorrect = True\<rparr>]\<rparr>]
        (answers (fst (handleSelectOption
           (fresh_client\<lparr>questions := [\<lparr>qid = ''q1'', q_test_id = ''t1'', question_text = ''2 + 2'',
                                         options = [\<lparr>option_text = ''3'', isCorrect = False\<rparr>,
                                                    \<lparr>option_text = ''4'', isCorrect = True\<rparr>]\<rparr>]\<rparr>)
           ''u1'' ''q1'' 1 (Some ''offline'') initial_db)))
   \<and> snd (handleSelectOption
       (fresh_client\<lparr>questions := [\<lparr>qid = ''q1'', q_test_id = ''t1'', question_text = ''2 + 2'',
                                     options = [\<lparr>option_text = ''3'', isCorrect = False\<rparr>,
                                                \<lparr>option_text = ''4'', isCorrect = True\<rparr>]\<rparr>]\<rparr>)
       ''u1'' ''q1'' 1 (Some ''offline'') initial_db) = (initial_db, Some ''offline'')
   \<and> student_answers initial_db = []
   \<and> \<lparr>session_id = ''active_session'', student_id = ''u1'', question_id = ''q1'',
       selected_option_index = 1\<rparr>
        \<in> set (student_answers (fst (snd
             (handleSelectOption fresh_client ''u1'' ''q1'' 1 None initial_db))))"
  using local_answer_survives_failed_save
    [where c = fresh_client and u = "''u1''" and q = "''q1''" and i = 1 and db_error = None
       and db = initial_db]
    local_answer_survives_failed_save
    [where c = "fresh_client\<lparr>questions := [\<lparr>qid = ''q1'', q_test_id = ''t1'', question_text = ''2 + 2'',
                                     options = [\<lparr>option_text = ''3'', isCorrect = False\<rparr>,
                                                \<lparr>option_text = ''4'', isCorrect = True\<rparr>]\<rparr>]\<rparr>"
       and u = "''u1''" and q = "''q1''" and i = 1 and db_error = "Some ''offline''"
       and db = initial_db and msg = "''offline''"]
  by (simp add: fresh_client_def answer_is_correct_def initial_db_def handleSelectOption_def)

section \<open>Final submission\<close>

lemma insert_submission_new:
  assumes "submission_key r \<notin> set (map submission_key rows)"
  shows "insert_submission r rows = Inr (rows @ [r])"
  using assms by (simp add: insert_submission_def)

lemma insert_submission_duplicate:
  assumes "submission_key r \<in> set (map submission_key rows)"
  shows "insert_submission r rows = Inl duplicate_key_message"
  using assms by (simp add: insert_submission_def)

text \<open>
  Claim C2 says both triggers observe a successful submission and the one that meets the
  key conflict goes to the report instead of showing an error. The manual submit of a fresh
  client succeeds; the automatic submit that follows meets the existing row and ends in the
  error branch, which alerts the message of the database and does not set \<open>isSubmitted\<close>:
  a client that had not submitted itself stays on the test.
\<close>

theorem second_submit_reports_an_error:
  "handleFinalSubmit fresh_client ''u1'' False None initial_db
     = (Inr ''student_submitted_test'',
        fresh_client\<lparr>isSubmitting := True, isSubmitted := True\<rparr>,
        initial_db\<lparr>student_submissions :=
                     [\<lparr>sub_session_id = ''active_session'', sub_student_id = ''u1''\<rparr>]\<rparr>)
   \<and> handleFinalSubmit (fresh_client\<lparr>isSubmitting := True, isSubmitted := True\<rparr>) ''u1'' True None
        (initial_db\<lparr>student_submissions :=
                      [\<lparr>sub_session_id = ''active_session'', sub_student_id = ''u1''\<rparr>]\<rparr>)
     = (Inl (SubmitFailed duplicate_key_message),
        fresh_client\<lparr>isSubmitting := False, isSubmitted := True\<rparr>,
        initial_db\<lparr>student_submissions :=
                     [\<lparr>sub_session_id = ''active_session'', sub_student_id = ''u1''\<rparr>]\<rparr>)
   \<and> handleFinalSubmit fresh_client ''u1'' True None
        (initial_db\<lparr>student_submissions :=
                      [\<lparr>sub_session_id = ''active_session'', sub_student_id = ''u1''\<rparr>]\<rparr>)
     = (Inl (SubmitFailed duplicate_key_message),
        fresh_client,
        initial_db\<lparr>student_submissions :=
                     [\<lparr>sub_session_id = ''active_session'', sub_student_id = ''u1''\<rparr>]\<rparr>)
   \<and> \<not> isSubmitted fresh_client"
  by (simp add: handleFinalSubmit_def insert_submission_def submission_key_def initial_db_def
      fresh_client_def)

text \<open>
  Claim C2, amended. The final submission is a plain insert keyed by (session, student):
  it fails with the database's message when a row with the key exists and changes no row.
  When the manual and the automatic trigger both attempt it for a student without a
  submission, in either order, the first insert to arrive succeeds and its caller sets
  \<open>isSubmitted\<close>, which shows the report; the second fails on the key, exactly one row
  for the student results, and its caller alerts the error, clears \<open>isSubmitting\<close> and
  leaves \<open>isSubmitted\<close> as it was.
\<close>

theorem submit_twice_keeps_one_row:
  assumes "(''active_session'', u) \<notin> set (map submission_key (student_submissions db))"
  shows "(let r1 = handleFinalSubmit c u first_auto None db;
              r2 = handleFinalSubmit (fst (snd r1)) u second_auto None (snd (snd r1))
          in fst r1 = Inr (if first_auto then ''student_auto_submitted''
                           else ''student_submitted_test'')
             \<and> isSubmitted (fst (snd r1))
             \<and> student_submissions (snd (snd r1))
                 = student_submissions db
                   @ [\<lparr>sub_session_id = ''active_session'', sub_student_id = u\<rparr>]
             \<and> fst r2 = Inl (SubmitFailed duplicate_key_message)
             \<and> snd (snd r2) = snd (snd r1)
             \<and> filter (\<lambda>r. submission_key r = (''active_session'', u))
                  (student_submissions (snd (snd r2)))
                 = [\<lparr>sub_session_id = ''active_session'', sub_student_id = u\<rparr>]
             \<and> isSubmitted (fst (snd r2)) \<and> \<not> isSubmitting (fst (snd r2)))
       \<and> (let r = handleFinalSubmit c' u auto None (snd (snd (handleFinalSubmit c u first_auto None db)))
          in fst r = Inl (SubmitFailed duplicate_key_message)
             \<and> isSubmitted (fst (snd r)) = isSubmitted c'
             \<and> \<not> isSubmitting (fst (snd r)))"
proof -
  let ?row = "\<lparr>sub_session_id = ''active_session'', sub_student_id = u\<rparr>"
  let ?rows = "student_submissions db @ [?row]"
  have key: "submission_key ?row = (''active_session'', u)"
    by (simp add: submission_key_def)
  have ins1: "insert_submission ?row (student_submissions db) = Inr ?rows"
    using assms by (simp add: insert_submission_new key)
  have ins2: "insert_submission ?row ?rows = Inl duplicate_key_message"
    by (simp add: insert_submission_duplicate key)
  have none_before: "filter (\<lambda>r. submission_key r = (''active_session'', u))
      (student_submissions db) = []"
    using assms by (auto simp add: filter_empty_conv image_iff)
  have r1: "handleFinalSubmit c u first_auto None db
      = (Inr (if first_auto then ''student_auto_submitted'' else ''student_submitted_test''),
         c\<lparr>isSubmitting := True, isSubmitted := True\<rparr>,
         db\<lparr>student_submissions := ?rows\<rparr>)"
    by (simp add: handleFinalSubmit_def ins1 Let_def)
  have r2: "handleFinalSubmit c2 u a None (db\<lparr>student_submissions := ?rows\<rparr>)
      = (Inl (SubmitFailed duplicate_key_message), c2\<lparr>isSubmitting := False\<rparr>,
         db\<lparr>student_submissions := ?rows\<rparr>)" for c2 a
    by (simp add: handleFinalSubmit_def ins2 Let_def)
  show ?thesis
    by (simp add: r1 r2 Let_def none_before key)
qed

theorem submit_twice_keeps_one_row_witness:
  "(''active_session'', ''u1'') \<notin> set (map submission_key (student_submissions initial_db))
   \<and> fst (handleFinalSubmit fresh_client ''u1'' False None initial_db)
       = Inr ''student_submitted_test''
   \<and> fst (handleFinalSubmit
        (fst (snd (handleFinalSubmit fresh_client ''u1'' False None initial_db))) ''u1'' True None
        (snd (snd (handleFinalSubmit fresh_client ''u1'' False None initial_db))))
       = Inl (SubmitFailed duplicate_key_message)
   \<and> student_submissions (snd (snd (handleFinalSubmit
        (fst (snd (handleFinalSubmit fresh_client ''u1'' False None initial_db))) ''u1'' True None
        (snd (snd (handleFinalSubmit fresh_client ''u1'' False None initial_db))))))
       = [\<lparr>sub_session_id = ''active_session'', sub_student_id = ''u1''\<rparr>]"
  using submit_twice_keeps_one_row [of "''u1''" initial_db fresh_client False True fresh_client True]
  by (simp add: initial_db_def Let_def)

end
